theory Spec2Isabelle
  imports Complex_Main "HOL-Library.Word"
begin

section \<open>Strings of the JavaScript runtime\<close>

text \<open>
  A JavaScript string is a sequence of UTF-16 code units. The source's literals are
  ASCII; \<open>ascii\<close> embeds an ASCII literal into a JavaScript string.
\<close>

type_synonym code_unit = "16 word"
type_synonym jsstring = "code_unit list"

definition ascii :: "string \<Rightarrow> jsstring" where
  "ascii s = map of_char s"

text \<open>
  The white space of ECMAScript: the code units matched by \<^verbatim>\<open>\s\<close> in a regular
  expression, which are also those removed by \<^verbatim>\<open>String.prototype.trim\<close>
  (WhiteSpace and LineTerminator): TAB, LF, VT, FF, CR, SP, NBSP, U+1680,
  U+2000..U+200A, U+2028, U+2029, U+202F, U+205F, U+3000 and U+FEFF.
\<close>

definition is_space :: "code_unit \<Rightarrow> bool" where
  "is_space c =
     (c = 0x09 \<or> c = 0x0A \<or> c = 0x0B \<or> c = 0x0C \<or> c = 0x0D \<or> c = 0x20 \<or>
      c = 0xA0 \<or> c = 0x1680 \<or> (0x2000 \<le> c \<and> c \<le> 0x200A) \<or>
      c = 0x2028 \<or> c = 0x2029 \<or> c = 0x202F \<or> c = 0x205F \<or> c = 0x3000 \<or>
      c = 0xFEFF)"

text \<open>\<^verbatim>\<open>s.trim()\<close>: white space removed from both ends.\<close>

definition trim :: "jsstring \<Rightarrow> jsstring" where
  "trim s = rev (dropWhile is_space (rev (dropWhile is_space s)))"

section \<open>Sanitization of the move text\<close>

text \<open>
  \<^verbatim>\<open>rawMove.split(/\s/)[0]\<close>: the part of the string before the first white-space
  code unit; the whole string when there is none, the empty string when the string is
  empty or starts with white space.
\<close>

definition first_token :: "jsstring \<Rightarrow> jsstring" where
  "first_token s = takeWhile (\<lambda>c. \<not> is_space c) s"

text \<open>
  \<^verbatim>\<open>.replace(/['"`.]/g, '')\<close>: every apostrophe (0x27), double quote (0x22),
  backtick (0x60) and period (0x2E) is removed, wherever it stands.
\<close>

definition is_wrapper :: "code_unit \<Rightarrow> bool" where
  "is_wrapper c = (c = 0x27 \<or> c = 0x22 \<or> c = 0x60 \<or> c = 0x2E)"

definition strip_wrappers :: "jsstring \<Rightarrow> jsstring" where
  "strip_wrappers s = filter (\<lambda>c. \<not> is_wrapper c) s"

text \<open>
  Line 116 of the handler: \<^verbatim>\<open>rawMove.split(/\s/)[0].replace(/['"`.]/g, '')\<close>.
\<close>

definition cleanedMove :: "jsstring \<Rightarrow> jsstring" where
  "cleanedMove rawMove = strip_wrappers (first_token rawMove)"

text \<open>
  Lines 113 and 116 together, from the extracted text:
  \<^verbatim>\<open>text.trim()\<close>, then the token, then the replacement.
\<close>

definition sanitize :: "jsstring \<Rightarrow> jsstring" where
  "sanitize t = cleanedMove (trim t)"

section \<open>Values of the JavaScript runtime\<close>

text \<open>
  The values that \<^verbatim>\<open>JSON.parse\<close> produces, and \<^verbatim>\<open>undefined\<close>, which a read of a
  missing property yields. A number is a double; the model abstracts it to a real
  (only its being zero or not is ever inspected). An object is the list of its own
  properties; \<open>map_of\<close> reads the first binding of a key.
\<close>

datatype jsval =
    JUndefined
  | JNull
  | JBool bool
  | JNumber real
  | JString jsstring
  | JArray "jsval list"
  | JObject "(jsstring \<times> jsval) list"

text \<open>
  A thrown \<^verbatim>\<open>Error\<close> object (of any subclass); the source reads only its
  \<^verbatim>\<open>message\<close>.
\<close>

datatype js_error = Error (message: jsstring)

text \<open>ToBoolean, as used by \<^verbatim>\<open>!x\<close> and \<^verbatim>\<open>x || y\<close>.\<close>

fun truthy :: "jsval \<Rightarrow> bool" where
  "truthy JUndefined = False"
| "truthy JNull = False"
| "truthy (JBool b) = b"
| "truthy (JNumber x) = (x \<noteq> 0)"
| "truthy (JString s) = (s \<noteq> [])"
| "truthy (JArray xs) = True"
| "truthy (JObject kvs) = True"

fun nullish :: "jsval \<Rightarrow> bool" where
  "nullish JUndefined = True"
| "nullish JNull = True"
| "nullish v = False"

text \<open>
  The value of a named property of a value that is neither \<^verbatim>\<open>undefined\<close> nor
  \<^verbatim>\<open>null\<close>. The names the source reads (\<^verbatim>\<open>fen\<close>, \<^verbatim>\<open>prompt\<close>, \<^verbatim>\<open>model\<close>,
  \<^verbatim>\<open>candidates\<close>, \<^verbatim>\<open>content\<close>, \<^verbatim>\<open>parts\<close>, \<^verbatim>\<open>text\<close>, \<^verbatim>\<open>error\<close>,
  \<^verbatim>\<open>message\<close>) are defined by no built-in prototype, so only an object's own
  property can provide them.
\<close>

fun lookup :: "jsval \<Rightarrow> jsstring \<Rightarrow> jsval" where
  "lookup (JObject kvs) k = (case map_of kvs k of Some v \<Rightarrow> v | None \<Rightarrow> JUndefined)"
| "lookup v k = JUndefined"

text \<open>The value of \<^verbatim>\<open>v[0]\<close> for such a value.\<close>

fun index0 :: "jsval \<Rightarrow> jsval" where
  "index0 (JArray xs) = (case xs of [] \<Rightarrow> JUndefined | x # rest \<Rightarrow> x)"
| "index0 (JString s) = (case s of [] \<Rightarrow> JUndefined | c # rest \<Rightarrow> JString [c])"
| "index0 (JObject kvs) = lookup (JObject kvs) (ascii ''0'')"
| "index0 v = JUndefined"

text \<open>
  The TypeError of a property read on \<^verbatim>\<open>undefined\<close> or \<^verbatim>\<open>null\<close>, with the
  message of the V8 engine; no theorem below depends on its wording.
\<close>

definition show_nullish :: "jsval \<Rightarrow> jsstring" where
  "show_nullish v = (if v = JNull then ascii ''null'' else ascii ''undefined'')"

definition cannot_read :: "jsval \<Rightarrow> jsstring \<Rightarrow> js_error" where
  "cannot_read v k =
     Error (ascii ''Cannot read properties of '' @ show_nullish v @
            ascii '' (reading '' @ [0x27] @ k @ [0x27] @ ascii '')'')"

text \<open>\<^verbatim>\<open>v.k\<close>: throws on \<^verbatim>\<open>undefined\<close> and \<^verbatim>\<open>null\<close>.\<close>

definition get_prop :: "jsval \<Rightarrow> jsstring \<Rightarrow> js_error + jsval" where
  "get_prop v k = (if nullish v then Inl (cannot_read v k) else Inr (lookup v k))"

text \<open>\<^verbatim>\<open>v?.k\<close> and \<^verbatim>\<open>v?.[0]\<close>: \<^verbatim>\<open>undefined\<close> on \<^verbatim>\<open>undefined\<close> and \<^verbatim>\<open>null\<close>.\<close>

definition opt_prop :: "jsval \<Rightarrow> jsstring \<Rightarrow> jsval" where
  "opt_prop v k = (if nullish v then JUndefined else lookup v k)"

definition opt_index0 :: "jsval \<Rightarrow> jsval" where
  "opt_index0 v = (if nullish v then JUndefined else index0 v)"

text \<open>
  A value substituted into a template literal. A string stands for itself; for any
  other value the conversion is the runtime's ToString, which the source does not
  contain: it is the parameter \<open>toStr\<close>, and it may throw (an object whose own
  \<^verbatim>\<open>toString\<close> and \<^verbatim>\<open>valueOf\<close> are not callable).
\<close>

definition template :: "(jsval \<Rightarrow> js_error + jsstring) \<Rightarrow> jsval \<Rightarrow> js_error + jsstring" where
  "template toStr v = (case v of JString s \<Rightarrow> Inr s | _ \<Rightarrow> toStr v)"

text \<open>The decimal digits of a number that is a natural number, as a template prints it.\<close>

definition digit :: "nat \<Rightarrow> code_unit" where
  "digit d = of_nat (48 + d)"

fun showNat :: "nat \<Rightarrow> jsstring" where
  "showNat n = (if n < 10 then [digit n] else showNat (n div 10) @ [digit (n mod 10)])"

declare showNat.simps [simp del]

section \<open>The outbound HTTP client\<close>

text \<open>
  The \<^verbatim>\<open>Response\<close> of \<^verbatim>\<open>fetch\<close>, as far as the source reads it: \<^verbatim>\<open>status\<close>,
  \<^verbatim>\<open>ok\<close>, and the results of awaiting \<^verbatim>\<open>text()\<close> and \<^verbatim>\<open>json()\<close>, each of which
  may reject.
\<close>

record response =
  status :: nat
  ok :: bool
  resp_text :: "js_error + jsstring"
  resp_json :: "js_error + jsval"

text \<open>What awaiting one call of \<^verbatim>\<open>fetch\<close> does: it throws, or yields a response.\<close>

datatype outcome = Rejects js_error | Resolves response

text \<open>
  The options of a call. The source passes \<^verbatim>\<open>JSON.stringify(payload)\<close> as the body;
  the model keeps the payload itself.
\<close>

record fetch_options =
  http_method :: jsstring
  http_headers :: "(jsstring \<times> jsstring) list"
  http_body :: jsval

text \<open>
  The observable effects of a run, in order: an outbound call of \<^verbatim>\<open>fetch\<close>, and a
  wait requested from \<^verbatim>\<open>setTimeout\<close>, with the delay passed to it (in milliseconds).
\<close>

datatype event = Fetch jsstring fetch_options | Sleep real

section \<open>fetchWithRetry\<close>

text \<open>
  The body of the \<^verbatim>\<open>try\<close> block (lines 18 to 27) on the outcome of the call:
  \<open>Inl\<close> is the error thrown into the \<^verbatim>\<open>catch\<close>, \<open>Inr\<close> the response returned.
\<close>

definition attempt :: "outcome \<Rightarrow> js_error + response" where
  "attempt out =
     (case out of
        Rejects error \<Rightarrow> Inl error
      | Resolves response \<Rightarrow>
          if status response = 429 then Inl (Error (ascii ''Rate limit exceeded''))
          else if \<not> ok response then
            (case resp_text response of
               Inl error \<Rightarrow> Inl error
             | Inr errorBody \<Rightarrow>
                 Inl (Error (ascii ''HTTP error! status: '' @ showNat (status response) @
                             ascii ''. Body: '' @ errorBody)))
          else Inr response)"

text \<open>
  The numbers of the source are IEEE 754 doubles (binary64), and each arithmetic
  operation rounds its exact result to the nearest double, ties to the even
  significand. \<open>rne q\<close> is the integer nearest to \<open>q\<close>, ties to even. \<open>exponent64 x\<close>
  is the exponent of the last place of the double format at the magnitude of \<open>x\<close>: 53
  significant bits, and never below \<open>-1074\<close> (the subnormal numbers). \<open>round64 x\<close>
  is the double nearest to \<open>x\<close>. Overflow to \<^verbatim>\<open>Infinity\<close> is not represented: it takes
  a magnitude of about \<open>2 ^ 1024\<close>, which line 30 reaches only from iteration 1015 on.
\<close>

definition rne :: "real \<Rightarrow> int" where
  "rne q =
     (let f = \<lfloor>q\<rfloor>; d = q - of_int f
      in if d < 1 / 2 then f else if 1 / 2 < d then f + 1 else if even f then f else f + 1)"

definition exponent64 :: "real \<Rightarrow> int" where
  "exponent64 x = max (\<lfloor>log 2 \<bar>x\<bar>\<rfloor> - 52) (- 1074)"

definition round64 :: "real \<Rightarrow> real" where
  "round64 x =
     (if x = 0 then 0
      else sgn x * (of_int (rne (\<bar>x\<bar> / 2 powi exponent64 x)) * 2 powi exponent64 x))"

text \<open>
  The delay of line 30 in iteration \<open>i\<close>:
  \<^verbatim>\<open>Math.pow(2, i) * 1000 + Math.random() * 1000\<close>. \<open>random i\<close> is the double that
  \<^verbatim>\<open>Math.random()\<close> returns in iteration \<open>i\<close>. The power of two is a double itself;
  the two products and the sum are rounded.
\<close>

definition backoff :: "(nat \<Rightarrow> real) \<Rightarrow> nat \<Rightarrow> real" where
  "backoff random i = round64 (round64 (2 ^ i * 1000) + round64 (random i * 1000))"

text \<open>
  The loop of lines 16 to 34, from iteration \<open>i\<close> with the effects so far.
  \<open>fetch i\<close> is the outcome of the call made in iteration \<open>i\<close>. The result is \<open>Inl\<close>
  for a thrown error, \<open>Inr (Some r)\<close> for a returned response and \<open>Inr None\<close> for the
  \<^verbatim>\<open>undefined\<close> of a loop that ends without returning.
\<close>

function fetchWithRetry_from ::
  "(nat \<Rightarrow> outcome) \<Rightarrow> (nat \<Rightarrow> real) \<Rightarrow> jsstring \<Rightarrow> fetch_options \<Rightarrow> nat \<Rightarrow> nat \<Rightarrow>
   event list \<Rightarrow> (js_error + response option) \<times> event list" where
  "fetchWithRetry_from fetch random url options maxRetries i trace =
     (if i < maxRetries then
        (case attempt (fetch i) of
           Inr response \<Rightarrow> (Inr (Some response), trace @ [Fetch url options])
         | Inl error \<Rightarrow>
             if i = maxRetries - 1 then (Inl error, trace @ [Fetch url options])
             else fetchWithRetry_from fetch random url options maxRetries (i + 1)
                    (trace @ [Fetch url options, Sleep (backoff random i)]))
      else (Inr None, trace))"
  by pat_completeness auto
termination
  by (relation "measure (\<lambda>(fetch, random, url, options, maxRetries, i, trace). maxRetries - i)") auto

declare fetchWithRetry_from.simps [simp del]

definition fetchWithRetry ::
  "(nat \<Rightarrow> outcome) \<Rightarrow> (nat \<Rightarrow> real) \<Rightarrow> jsstring \<Rightarrow> fetch_options \<Rightarrow> nat \<Rightarrow>
   (js_error + response option) \<times> event list" where
  "fetchWithRetry fetch random url options maxRetries =
     fetchWithRetry_from fetch random url options maxRetries 0 []"

section \<open>The serverless handler\<close>

text \<open>The inbound request: its method, and what reading \<^verbatim>\<open>request.body\<close> gives.\<close>

record request =
  req_method :: jsstring
  req_body :: "js_error + jsval"

text \<open>
  The reply written to the caller: the status code, the headers set, and the JSON
  body if there is one.
\<close>

record http_response =
  code :: nat
  hdrs :: "(jsstring \<times> jsstring) list"
  payload :: "jsval option"

definition GEMINI_API_BASE :: jsstring where
  "GEMINI_API_BASE = ascii ''https://generativelanguage.googleapis.com/v1beta/models/''"

definition MODEL_NAME :: jsstring where
  "MODEL_NAME = ascii ''gemini-2.5-flash-preview-09-2025''"

definition SYSTEM_INSTRUCTION :: jsstring where
  "SYSTEM_INSTRUCTION =
     ascii ''You are a world-class chess engine. Your sole task is to analyze the current board state (provided as a FEN string) and respond ONLY with the best move in Standard Algebraic Notation (SAN), without any surrounding text, markdown, or explanation. The response must be a single, valid chess move (e.g., '' @
     [0x27] @ ascii ''e4'' @ [0x27] @ ascii '', '' @
     [0x27] @ ascii ''Nf3'' @ [0x27] @ ascii '', '' @
     [0x27] @ ascii ''Qxg7'' @ [0x27] @
     ascii ''). Do not use move tokens (e.g., e2e4) unless necessary for ambiguity.''"

text \<open>The three headers set on lines 41 to 43, before anything else.\<close>

definition cors_headers :: "(jsstring \<times> jsstring) list" where
  "cors_headers =
     [(ascii ''Access-Control-Allow-Origin'', ascii ''*''),
      (ascii ''Access-Control-Allow-Methods'', ascii ''POST, OPTIONS''),
      (ascii ''Access-Control-Allow-Headers'', ascii ''Content-Type'')]"

text \<open>\<^verbatim>\<open>response.status(c).end()\<close> and \<^verbatim>\<open>response.status(c).json(obj)\<close>.\<close>

definition reply_end :: "nat \<Rightarrow> http_response" where
  "reply_end c = \<lparr>code = c, hdrs = cors_headers, payload = None\<rparr>"

definition reply_json :: "nat \<Rightarrow> jsval \<Rightarrow> http_response" where
  "reply_json c obj = \<lparr>code = c, hdrs = cors_headers, payload = Some obj\<rparr>"

definition error_body :: "jsstring \<Rightarrow> jsval" where
  "error_body msg = JObject [(ascii ''error'', JString msg)]"

text \<open>
  Lines 63 to 75: \<open>Inl\<close> is the reply of an early return, \<open>Inr\<close> the value of
  \<^verbatim>\<open>fen\<close> with which the handler goes on.
\<close>

definition read_fen :: "request \<Rightarrow> http_response + jsval" where
  "read_fen request =
     (case req_body request of
        Inl e \<Rightarrow> Inl (reply_json 400 (error_body (ascii ''Invalid JSON request body.'')))
      | Inr body \<Rightarrow>
          (case get_prop body (ascii ''fen'') of
             Inl e \<Rightarrow> Inl (reply_json 400 (error_body (ascii ''Invalid JSON request body.'')))
           | Inr fen \<Rightarrow>
               if \<not> truthy fen
               then Inl (reply_json 400 (error_body (ascii ''Missing FEN string in request body.'')))
               else Inr fen))"

text \<open>Lines 79 and 81: the prompt, from the text of \<^verbatim>\<open>fen\<close>, and the URL, from the key.\<close>

definition userPrompt :: "jsstring \<Rightarrow> jsstring" where
  "userPrompt fenText =
     ascii ''Analyze the current board state provided by this FEN string and give the single best move: '' @ fenText"

definition apiUrl :: "jsstring \<Rightarrow> jsstring" where
  "apiUrl geminiApiKey =
     GEMINI_API_BASE @ MODEL_NAME @ ascii '':generateContent?key='' @ geminiApiKey"

text \<open>Lines 83 to 91, and lines 94 to 98.\<close>

definition handler_payload :: "jsstring \<Rightarrow> jsval" where
  "handler_payload promptText =
     JObject
       [(ascii ''contents'',
           JArray [JObject [(ascii ''parts'', JArray [JObject [(ascii ''text'', JString promptText)]])]]),
        (ascii ''systemInstruction'',
           JObject [(ascii ''parts'', JArray [JObject [(ascii ''text'', JString SYSTEM_INSTRUCTION)]])]),
        (ascii ''generationConfig'', JObject [(ascii ''temperature'', JNumber (1 / 10))])]"

definition fetchOptions :: "jsval \<Rightarrow> fetch_options" where
  "fetchOptions body =
     \<lparr>http_method = ascii ''POST'',
      http_headers = [(ascii ''Content-Type'', ascii ''application/json'')],
      http_body = body\<rparr>"

text \<open>
  \<^verbatim>\<open>candidate.content?.parts?.[0]?.text\<close>, for a \<^verbatim>\<open>candidate\<close> that is truthy (so
  that reading \<^verbatim>\<open>content\<close> does not throw).
\<close>

definition candidate_text :: "jsval \<Rightarrow> jsval" where
  "candidate_text candidate =
     opt_prop (opt_index0 (opt_prop (lookup candidate (ascii ''content'')) (ascii ''parts'')))
       (ascii ''text'')"

text \<open>
  \<^verbatim>\<open>result.error?.message || 'Gemini returned an empty or invalid response.'\<close>, for a
  \<^verbatim>\<open>result\<close> that is neither \<^verbatim>\<open>undefined\<close> nor \<^verbatim>\<open>null\<close>.
\<close>

definition errorMessage :: "jsval \<Rightarrow> jsval" where
  "errorMessage result =
     (let m = opt_prop (lookup result (ascii ''error'')) (ascii ''message'')
      in if truthy m then m else JString (ascii ''Gemini returned an empty or invalid response.''))"

text \<open>
  Lines 103 to 121, on the parsed \<^verbatim>\<open>result\<close>: \<open>Inl\<close> is an error thrown into the
  \<^verbatim>\<open>catch\<close> of line 123, \<open>Inr\<close> the reply. A truthy text that is not a string has no
  \<^verbatim>\<open>trim\<close> method, and calling it throws a TypeError (given here with the message of
  the V8 engine).
\<close>

definition unwrap :: "(jsval \<Rightarrow> js_error + jsstring) \<Rightarrow> jsval \<Rightarrow> js_error + http_response" where
  "unwrap toStr result =
     (case get_prop result (ascii ''candidates'') of
        Inl e \<Rightarrow> Inl e
      | Inr candidates \<Rightarrow>
          let candidate = opt_index0 candidates in
          if \<not> truthy candidate \<or> \<not> truthy (candidate_text candidate) then
            (case template toStr (errorMessage result) of
               Inl e \<Rightarrow> Inl e
             | Inr msg \<Rightarrow> Inr (reply_json 502 (error_body (ascii ''Gemini API Error: '' @ msg))))
          else
            (case candidate_text candidate of
               JString t \<Rightarrow>
                 Inr (reply_json 200 (JObject [(ascii ''move'', JString (cleanedMove (trim t)))]))
             | other \<Rightarrow>
                 Inl (Error (ascii ''candidate.content.parts[0].text.trim is not a function''))))"

text \<open>The reply of the \<^verbatim>\<open>catch\<close> of lines 123 to 126.\<close>

definition failed_reply :: "js_error \<Rightarrow> http_response" where
  "failed_reply error =
     reply_json 500
       (JObject [(ascii ''error'', JString (ascii ''Failed to communicate with the Gemini API.'')),
                 (ascii ''details'', JString (message error))])"

text \<open>
  Lines 100 and 101 on what \<^verbatim>\<open>fetchWithRetry\<close> gave: the thrown error passes to the
  \<^verbatim>\<open>catch\<close>, \<^verbatim>\<open>undefined\<close> has no \<^verbatim>\<open>json\<close> method, a response is parsed.
\<close>

definition parse_response :: "js_error + response option \<Rightarrow> js_error + jsval" where
  "parse_response fetched =
     (case fetched of
        Inl error \<Rightarrow> Inl error
      | Inr None \<Rightarrow> Inl (cannot_read JUndefined (ascii ''json''))
      | Inr (Some apiResponse) \<Rightarrow> resp_json apiResponse)"

text \<open>Lines 93 to 126: the \<^verbatim>\<open>try\<close> block after the fetch, and its \<^verbatim>\<open>catch\<close>.\<close>

definition relay_reply :: "(jsval \<Rightarrow> js_error + jsstring) \<Rightarrow> js_error + response option \<Rightarrow> http_response" where
  "relay_reply toStr fetched =
     (case parse_response fetched of
        Inl error \<Rightarrow> failed_reply error
      | Inr result \<Rightarrow>
          (case unwrap toStr result of
             Inl error \<Rightarrow> failed_reply error
           | Inr reply \<Rightarrow> reply))"

text \<open>
  The handler. \<open>env_key\<close> is \<^verbatim>\<open>process.env.GEMINI_API_KEY\<close> (\<open>None\<close> when unset),
  \<open>fetch\<close> and \<open>random\<close> are as for \<open>fetchWithRetry\<close>. The result is the reply
  (\<open>Inl\<close> when the handler itself throws, which only the template of line 79 can
  cause) and the effects in order. Writes to the console are not modelled.
\<close>

definition handler ::
  "(jsval \<Rightarrow> js_error + jsstring) \<Rightarrow> jsstring option \<Rightarrow> (nat \<Rightarrow> outcome) \<Rightarrow> (nat \<Rightarrow> real) \<Rightarrow>
   request \<Rightarrow> (js_error + http_response) \<times> event list" where
  "handler toStr env_key fetch random request =
     (if req_method request = ascii ''OPTIONS'' then (Inr (reply_end 200), [])
      else if req_method request \<noteq> ascii ''POST''
      then (Inr (reply_json 405 (error_body (ascii ''Method Not Allowed. Use POST.''))), [])
      else
        (case env_key of
           None \<Rightarrow>
             (Inr (reply_json 500
                (error_body (ascii ''Server configuration error: Gemini API Key is missing.''))), [])
         | Some geminiApiKey \<Rightarrow>
             if geminiApiKey = []
             then (Inr (reply_json 500
                (error_body (ascii ''Server configuration error: Gemini API Key is missing.''))), [])
             else
               (case read_fen request of
                  Inl reply \<Rightarrow> (Inr reply, [])
                | Inr fen \<Rightarrow>
                    (case template toStr fen of
                       Inl error \<Rightarrow> (Inl error, [])
                     | Inr fenText \<Rightarrow>
                         let run = fetchWithRetry fetch random (apiUrl geminiApiKey)
                                     (fetchOptions (handler_payload (userPrompt fenText))) 5
                         in (Inr (relay_reply toStr (fst run)), snd run)))))"

section \<open>The standalone server\<close>

text \<open>
  Lines 17 to 22 of the server: without the key the process exits with code 1 before
  any route is registered; otherwise it serves with the key it read.
\<close>

datatype startup = Exit nat | Serving jsstring

definition proxy_startup :: "jsstring option \<Rightarrow> startup" where
  "proxy_startup env_key =
     (case env_key of
        None \<Rightarrow> Exit 1
      | Some GEMINI_API_KEY \<Rightarrow> if GEMINI_API_KEY = [] then Exit 1 else Serving GEMINI_API_KEY)"

text \<open>
  \<^verbatim>\<open>res.json(obj)\<close> (status 200) and \<^verbatim>\<open>res.status(c).json(obj)\<close>; the headers are
  the middleware's and are not modelled.
\<close>

definition res_json :: "nat \<Rightarrow> jsval \<Rightarrow> http_response" where
  "res_json c obj = \<lparr>code = c, hdrs = [], payload = Some obj\<rparr>"

text \<open>The \<^verbatim>\<open>catch\<close> of lines 51 to 54.\<close>

definition proxy_error :: "js_error \<Rightarrow> http_response" where
  "proxy_error error =
     res_json 500
       (error_body (if message error \<noteq> [] then message error
                    else ascii ''An unknown error occurred in the proxy.''))"

definition proxy_payload :: "jsval \<Rightarrow> jsval" where
  "proxy_payload prompt =
     JObject
       [(ascii ''contents'',
           JArray [JObject [(ascii ''role'', JString (ascii ''user'')),
                            (ascii ''parts'', JArray [JObject [(ascii ''text'', prompt)]])]]),
        (ascii ''generationConfig'',
           JObject [(ascii ''temperature'', JNumber (3 / 10)),
                    (ascii ''maxOutputTokens'', JNumber 64)])]"

text \<open>The URL of the server's outbound call (line 35).\<close>

definition geminiUrl :: "jsstring \<Rightarrow> jsstring \<Rightarrow> jsstring" where
  "geminiUrl modelText GEMINI_API_KEY =
     ascii ''https://generativelanguage.googleapis.com/v1beta/models/'' @ modelText @
     ascii '':generateContent?key='' @ GEMINI_API_KEY"

text \<open>
  The TypeError of destructuring \<^verbatim>\<open>undefined\<close> or \<^verbatim>\<open>null\<close> on line 28, with the
  message of the V8 engine.
\<close>

definition cannot_destructure :: "jsval \<Rightarrow> js_error" where
  "cannot_destructure v =
     Error (ascii ''Cannot destructure property '' @ [0x27] @ ascii ''prompt'' @ [0x27] @
            ascii '' of '' @ [0x27] @ ascii ''req.body'' @ [0x27] @ ascii '' as it is '' @
            show_nullish v @ ascii ''.'')"

text \<open>
  The route of lines 25 to 55, for a server that is running with the key
  \<open>GEMINI_API_KEY\<close>. \<open>body\<close> is \<^verbatim>\<open>req.body\<close>; destructuring it throws a TypeError
  when it is \<^verbatim>\<open>undefined\<close> or \<^verbatim>\<open>null\<close>. \<open>fetch 0\<close> is the outcome of the one call.
\<close>

definition gemini_move ::
  "(jsval \<Rightarrow> js_error + jsstring) \<Rightarrow> jsstring \<Rightarrow> (nat \<Rightarrow> outcome) \<Rightarrow> jsval \<Rightarrow>
   http_response \<times> event list" where
  "gemini_move toStr GEMINI_API_KEY fetch body =
     (if nullish body then (proxy_error (cannot_destructure body), [])
      else
          let prompt = lookup body (ascii ''prompt'');
              model = lookup body (ascii ''model'') in
          if \<not> truthy prompt \<or> \<not> truthy model
          then (res_json 400
                  (error_body (ascii ''Missing '' @ [0x27] @ ascii ''prompt'' @ [0x27] @
                     ascii '' or '' @ [0x27] @ ascii ''model'' @ [0x27] @
                     ascii '' in request body.'')), [])
          else
            (case template toStr model of
               Inl error \<Rightarrow> (proxy_error error, [])
             | Inr modelText \<Rightarrow>
                 let call = Fetch (geminiUrl modelText GEMINI_API_KEY)
                              (fetchOptions (proxy_payload prompt))
                 in (case fetch 0 of
                       Rejects error \<Rightarrow> (proxy_error error, [call])
                     | Resolves geminiResponse \<Rightarrow>
                         (case resp_json geminiResponse of
                            Inl error \<Rightarrow> (proxy_error error, [call])
                          | Inr data \<Rightarrow> (res_json 200 data, [call])))))"

section \<open>Notions used to state the properties\<close>

text \<open>
  An attempt fails, and is retried, when the transport throws, when the upstream
  answers with the rate-limit status 429, or when it answers with any non-success
  status.
\<close>

fun retryable_failure :: "outcome \<Rightarrow> bool" where
  "retryable_failure (Rejects e) = True"
| "retryable_failure (Resolves r) = (status r = 429 \<or> \<not> ok r)"

text \<open>The effects of \<open>m\<close> failed iterations in a row, the first being iteration \<open>s\<close>.\<close>

fun retries :: "(nat \<Rightarrow> real) \<Rightarrow> jsstring \<Rightarrow> fetch_options \<Rightarrow> nat \<Rightarrow> nat \<Rightarrow> event list" where
  "retries random url options s 0 = []"
| "retries random url options s (Suc m) =
     Fetch url options # Sleep (backoff random s) # retries random url options (Suc s) m"

text \<open>The number of outbound calls in a trace, and the waits of a trace in order.\<close>

fun fetch_count :: "event list \<Rightarrow> nat" where
  "fetch_count [] = 0"
| "fetch_count (Fetch url options # evs) = Suc (fetch_count evs)"
| "fetch_count (Sleep d # evs) = fetch_count evs"




text \<open>
  The sanitization as the specification words it, to be compared with \<open>sanitize\<close>:
  trim, keep the first token, strip the quote characters (apostrophe, double quote,
  backtick), and strip the periods at the end.
\<close>

definition is_quote :: "code_unit \<Rightarrow> bool" where
  "is_quote c = (c = 0x27 \<or> c = 0x22 \<or> c = 0x60)"

definition spec_strip :: "jsstring \<Rightarrow> jsstring" where
  "spec_strip s = rev (dropWhile (\<lambda>c. c = 0x2E) (rev (filter (\<lambda>c. \<not> is_quote c) s)))"

definition spec_sanitize :: "jsstring \<Rightarrow> jsstring" where
  "spec_sanitize t = spec_strip (first_token (trim t))"

text \<open>
  The required field of the handler is missing: reading the body throws, the body is
  \<^verbatim>\<open>undefined\<close> or \<^verbatim>\<open>null\<close>, or its \<^verbatim>\<open>fen\<close> is absent or falsy (the source
  tests \<^verbatim>\<open>!fen\<close>, which does not tell an absent field from an empty one).
\<close>

definition fen_missing :: "request \<Rightarrow> bool" where
  "fen_missing request =
     (case req_body request of
        Inl e \<Rightarrow> True
      | Inr body \<Rightarrow> nullish body \<or> \<not> truthy (lookup body (ascii ''fen'')))"

text \<open>The same for the two required fields of the standalone server.\<close>

definition prompt_or_model_missing :: "jsval \<Rightarrow> bool" where
  "prompt_or_model_missing body =
     (nullish body \<or> \<not> truthy (lookup body (ascii ''prompt'')) \<or>
      \<not> truthy (lookup body (ascii ''model'')))"

text \<open>The value is a string.\<close>

fun is_string :: "jsval \<Rightarrow> bool" where
  "is_string (JString s) = True"
| "is_string v = False"

text \<open>Example inputs.\<close>

definition no_conversion :: "jsval \<Rightarrow> js_error + jsstring" where
  "no_conversion v = Inl (Error (ascii ''Cannot convert object to primitive value''))"

definition rate_limited :: response where
  "rate_limited =
     \<lparr>status = 429, ok = False, resp_text = Inr (ascii ''slow down''),
      resp_json = Inl (Error (ascii ''Unexpected token s in JSON''))\<rparr>"

definition move_response :: "jsstring \<Rightarrow> response" where
  "move_response t =
     \<lparr>status = 200, ok = True, resp_text = Inr [],
      resp_json = Inr (JObject [(ascii ''candidates'',
        JArray [JObject [(ascii ''content'',
          JObject [(ascii ''parts'', JArray [JObject [(ascii ''text'', JString t)]])])]])])\<rparr>"

definition unparsable :: response where
  "unparsable =
     \<lparr>status = 200, ok = True, resp_text = Inr (ascii ''<html>''),
      resp_json = Inl (Error (ascii ''Unexpected token < in JSON at position 0''))\<rparr>"

definition quota_response :: response where
  "quota_response =
     \<lparr>status = 200, ok = True, resp_text = Inr [],
      resp_json = Inr (JObject [(ascii ''error'',
        JObject [(ascii ''message'', JString (ascii ''quota''))])])\<rparr>"

definition bool_conversion :: "jsval \<Rightarrow> js_error + jsstring" where
  "bool_conversion v =
     (case v of
        JBool b \<Rightarrow> Inr (if b then ascii ''true'' else ascii ''false'')
      | other \<Rightarrow> Inl (Error (ascii ''Cannot convert object to primitive value'')))"

definition flagged_response :: "jsval \<Rightarrow> response" where
  "flagged_response m =
     \<lparr>status = 200, ok = True, resp_text = Inr [],
      resp_json = Inr (JObject [(ascii ''error'', JObject [(ascii ''message'', m)])])\<rparr>"

definition json_response :: "jsval \<Rightarrow> response" where
  "json_response v = \<lparr>status = 200, ok = True, resp_text = Inr [], resp_json = Inr v\<rparr>"

definition result_with_text :: "jsval \<Rightarrow> jsval" where
  "result_with_text t =
     JObject [(ascii ''candidates'',
       JArray [JObject [(ascii ''content'',
         JObject [(ascii ''parts'', JArray [JObject [(ascii ''text'', t)]])])]])]"

definition flaky :: "nat \<Rightarrow> outcome" where
  "flaky i = (if i = 0 then Rejects (Error (ascii ''socket hang up''))
              else Resolves (move_response (ascii ''Nf6'' @ [0x0A])))"

definition prompt_body :: "jsstring \<Rightarrow> jsstring \<Rightarrow> jsval" where
  "prompt_body prompt model =
     JObject [(ascii ''prompt'', JString prompt), (ascii ''model'', JString model)]"

definition fen_request :: "jsstring \<Rightarrow> jsstring \<Rightarrow> request" where
  "fen_request m fen =
     \<lparr>req_method = m, req_body = Inr (JObject [(ascii ''fen'', JString fen)])\<rparr>"

section \<open>Properties of the double arithmetic\<close>

lemma rne_of_int: "rne (of_int k) = k"
  by (simp add: rne_def)









lemma round64_pos:
  "0 < x \<Longrightarrow> round64 x = of_int (rne (x / 2 powi exponent64 x)) * 2 powi exponent64 x"
  by (simp add: round64_def exponent64_def)




lemma round64_exact:
  assumes "0 < x" and "x / 2 powi exponent64 x = of_int m"
  shows "round64 x = x"
proof -
  have "round64 x = of_int m * 2 powi exponent64 x"
    using assms by (simp add: round64_pos rne_of_int)
  also have "\<dots> = x"
    using assms(2) by (simp add: field_simps)
  finally show ?thesis .
qed

lemma round64_of_nat:
  assumes "n < 2 ^ 53"
  shows "round64 (of_nat n) = of_nat n"
proof (cases "n = 0")
  case True
  then show ?thesis by (simp add: round64_def)
next
  case False
  then have x: "0 < real n" by simp
  have "1 \<le> real n" using False by simp
  then have "0 \<le> log 2 (real n)" by simp
  then have lo: "0 \<le> \<lfloor>log 2 (real n)\<rfloor>" by simp
  have "real n < 2 ^ 53" using assms by (metis of_nat_less_iff of_nat_numeral of_nat_power)
  then have "log 2 (real n) < 53"
    using x by (simp add: log_less_iff)
  then have "\<lfloor>log 2 (real n)\<rfloor> < 53" by (simp add: floor_less_iff)
  then have hi: "\<lfloor>log 2 (real n)\<rfloor> \<le> 52" by simp
  from lo hi have e: "exponent64 (real n) = \<lfloor>log 2 (real n)\<rfloor> - 52"
    by (simp add: exponent64_def)
  define k where "k = nat (52 - \<lfloor>log 2 (real n)\<rfloor>)"
  have ek: "exponent64 (real n) = - int k" using hi e by (simp add: k_def)
  have "real n / 2 powi exponent64 (real n) = of_int (int n * 2 ^ k)"
    by (simp add: ek power_int_minus field_simps)
  with x show ?thesis by (rule round64_exact)
qed

section \<open>Properties of the retry loop\<close>

lemma attempt_fails_iff: "retryable_failure out \<longleftrightarrow> (\<exists>e. attempt out = Inl e)"
  by (cases out) (auto simp: attempt_def split: sum.splits)

lemma attempt_succeeds_iff:
  "\<not> retryable_failure out \<longleftrightarrow>
     (\<exists>r. out = Resolves r \<and> attempt out = Inr r \<and> status r \<noteq> 429 \<and> ok r)"
  by (cases out) (auto simp: attempt_def split: sum.splits)

lemma attempt_Inr: "attempt out = Inr r \<Longrightarrow> out = Resolves r \<and> status r \<noteq> 429 \<and> ok r"
  by (cases out) (auto simp: attempt_def split: sum.splits if_splits)

lemma loop_success:
  assumes "\<forall>j. i \<le> j \<and> j < k \<longrightarrow> retryable_failure (fetch j)"
      and "attempt (fetch k) = Inr r" and "i \<le> k" and "k < n"
  shows "fetchWithRetry_from fetch random url options n i trace =
           (Inr (Some r), trace @ retries random url options i (k - i) @ [Fetch url options])"
  using assms
proof (induction "k - i" arbitrary: i trace)
  case 0
  then have "i = k" by simp
  with 0 show ?case
    by (simp add: fetchWithRetry_from.simps [of _ _ _ _ _ k])
next
  case (Suc m)
  then have lt: "i < k" and m: "m = k - (i + 1)" by auto
  from Suc.prems(1) lt obtain e where e: "attempt (fetch i) = Inl e"
    using attempt_fails_iff by (metis order_refl)
  have ne: "i \<noteq> n - 1" using lt Suc.prems(4) by arith
  have step: "fetchWithRetry_from fetch random url options n i trace =
      fetchWithRetry_from fetch random url options n (i + 1)
        (trace @ [Fetch url options, Sleep (backoff random i)])"
    using lt Suc.prems(4) e ne by (subst fetchWithRetry_from.simps) simp
  have "fetchWithRetry_from fetch random url options n (i + 1)
        (trace @ [Fetch url options, Sleep (backoff random i)]) =
        (Inr (Some r), (trace @ [Fetch url options, Sleep (backoff random i)]) @
           retries random url options (i + 1) (k - (i + 1)) @ [Fetch url options])"
    using Suc.hyps(1) [OF m] Suc.prems lt by simp
  moreover have "k - i = Suc (k - (i + 1))" using lt by simp
  ultimately show ?case
    using step by simp
qed

lemma loop_exhausted:
  assumes "\<forall>j. i \<le> j \<and> j < n \<longrightarrow> retryable_failure (fetch j)"
      and "attempt (fetch (n - 1)) = Inl e" and "i < n"
  shows "fetchWithRetry_from fetch random url options n i trace =
           (Inl e, trace @ retries random url options i (n - 1 - i) @ [Fetch url options])"
  using assms
proof (induction "n - 1 - i" arbitrary: i trace)
  case 0
  then have "i = n - 1" by simp
  with 0 show ?case
    by (subst fetchWithRetry_from.simps) simp
next
  case (Suc m)
  then have lt: "i < n - 1" and m: "m = n - 1 - (i + 1)" by auto
  from Suc.prems(1) lt obtain e' where e': "attempt (fetch i) = Inl e'"
    using attempt_fails_iff
    by (metis order_refl Suc.prems(3))
  have step: "fetchWithRetry_from fetch random url options n i trace =
      fetchWithRetry_from fetch random url options n (i + 1)
        (trace @ [Fetch url options, Sleep (backoff random i)])"
  proof -
    have "i < n" and "i \<noteq> n - 1" using lt by arith+
    then show ?thesis using e' by (subst fetchWithRetry_from.simps) simp
  qed
  have "fetchWithRetry_from fetch random url options n (i + 1)
        (trace @ [Fetch url options, Sleep (backoff random i)]) =
        (Inl e, (trace @ [Fetch url options, Sleep (backoff random i)]) @
           retries random url options (i + 1) (n - 1 - (i + 1)) @ [Fetch url options])"
    using Suc.hyps(1) [OF m] Suc.prems lt by simp
  moreover have "n - 1 - i = Suc (n - 1 - (i + 1))" using lt by simp
  ultimately show ?case
    using step by simp
qed

lemma fetch_count_append: "fetch_count (xs @ ys) = fetch_count xs + fetch_count ys"
  by (induction xs rule: fetch_count.induct) auto

lemma fetch_count_retries: "fetch_count (retries random url options s m) = m"
  by (induction m arbitrary: s) auto

lemma loop_returns:
  "fst (fetchWithRetry_from fetch random url options n i trace) = Inr v \<Longrightarrow>
     (v = None \<and> n \<le> i) \<or> (\<exists>r. v = Some r \<and> status r \<noteq> 429 \<and> ok r)"
proof (induction fetch random url options n i trace rule: fetchWithRetry_from.induct)
  case (1 fetch random url options maxRetries i trace)
  show ?case
  proof (cases "i < maxRetries")
    case False
    with "1.prems" show ?thesis by (simp add: fetchWithRetry_from.simps)
  next
    case True
    show ?thesis
    proof (cases "attempt (fetch i)")
      case (Inr r)
      with True "1.prems" have "v = Some r"
        by (simp add: fetchWithRetry_from.simps [of _ _ _ _ _ i])
      with attempt_Inr [OF Inr] show ?thesis by simp
    next
      case (Inl e)
      show ?thesis
      proof (cases "i = maxRetries - 1")
        case True
        with \<open>i < maxRetries\<close> Inl "1.prems" show ?thesis
          by (subst (asm) fetchWithRetry_from.simps) simp
      next
        case False
        with \<open>i < maxRetries\<close> Inl "1.prems"
        have "fst (fetchWithRetry_from fetch random url options maxRetries (i + 1)
                (trace @ [Fetch url options, Sleep (backoff random i)])) = Inr v"
          by (subst (asm) fetchWithRetry_from.simps) simp
        from "1.IH" [OF \<open>i < maxRetries\<close> Inl False this] \<open>i < maxRetries\<close> False
        show ?thesis by auto
      qed
    qed
  qed
qed

text \<open>
  Claim C1. If the first \<open>k\<close> attempts (\<open>k < 5\<close>) fail with a retryable condition and
  the next attempt succeeds with the response \<open>r\<close>, then \<open>fetchWithRetry\<close> returns
  \<open>r\<close> after \<open>k + 1\<close> calls, and the reply of the handler is the one it gives when the
  upstream succeeds with \<open>r\<close> at once: the retries are invisible to the caller.
\<close>

theorem retry_is_transparent:
  assumes "k < 5"
      and "\<forall>i<k. retryable_failure (fetch i)"
      and "fetch k = Resolves r" and "status r \<noteq> 429" and "ok r"
  shows "fst (fetchWithRetry fetch random url options 5) = Inr (Some r) \<and>
         fetch_count (snd (fetchWithRetry fetch random url options 5)) = k + 1 \<and>
         fst (handler toStr env_key fetch random request) =
           fst (handler toStr env_key (\<lambda>i. Resolves r) random request)"
proof -
  have ok: "attempt (Resolves r) = Inr r"
    using assms(4,5) by (simp add: attempt_def)
  have run: "fetchWithRetry fetch random url' options' 5 =
      (Inr (Some r), retries random url' options' 0 k @ [Fetch url' options'])" for url' options'
    unfolding fetchWithRetry_def
    using loop_success [of 0 k fetch r 5 random url' options' "[]"] assms ok by simp
  have direct: "fetchWithRetry (\<lambda>i. Resolves r) random url' options' 5 =
      (Inr (Some r), [Fetch url' options'])" for url' options'
    unfolding fetchWithRetry_def
    using loop_success [of 0 0 "\<lambda>i. Resolves r" r 5 random url' options' "[]"] ok by simp
  have "fst (handler toStr env_key fetch random request) =
        fst (handler toStr env_key (\<lambda>i. Resolves r) random request)"
    by (simp add: handler_def run direct Let_def split: option.splits sum.splits)
  then show ?thesis
    by (simp add: run fetch_count_append fetch_count_retries)
qed

theorem retry_is_transparent_witness:
  "(2::nat) < 5 \<and>
   retryable_failure (Resolves rate_limited) \<and>
   status (move_response (ascii ''Nf6'')) \<noteq> 429 \<and> ok (move_response (ascii ''Nf6'')) \<and>
   fst (fetchWithRetry (\<lambda>i. if i < 2 then Resolves rate_limited
                             else Resolves (move_response (ascii ''Nf6'')))
          (\<lambda>i. 0) [] (fetchOptions JNull) 5) = Inr (Some (move_response (ascii ''Nf6''))) \<and>
   fetch_count (snd (fetchWithRetry (\<lambda>i. if i < 2 then Resolves rate_limited
                             else Resolves (move_response (ascii ''Nf6'')))
          (\<lambda>i. 0) [] (fetchOptions JNull) 5)) = 3"
  using retry_is_transparent [of 2 "\<lambda>i. if i < 2 then Resolves rate_limited
          else Resolves (move_response (ascii ''Nf6''))" "move_response (ascii ''Nf6'')"
          "\<lambda>i. 0" "[]" "fetchOptions JNull" no_conversion None "fen_request [] []"]
  by (simp add: rate_limited_def move_response_def)

text \<open>
  Claim C10. Whenever \<open>fetchWithRetry\<close>, with its default of 5 attempts, returns a
  value instead of throwing, the value is a response whose status is not 429 and
  whose \<^verbatim>\<open>ok\<close> holds.
\<close>

theorem returned_response_is_success:
  assumes "fst (fetchWithRetry fetch random url options 5) = Inr v"
  shows "\<exists>r. v = Some r \<and> status r \<noteq> 429 \<and> ok r"
  using loop_returns [of fetch random url options 5 0 "[]" v] assms
  by (simp add: fetchWithRetry_def)

lemma direct_run:
  "status r \<noteq> 429 \<Longrightarrow> ok r \<Longrightarrow>
   fetchWithRetry (\<lambda>i. Resolves r) random url options 5 = (Inr (Some r), [Fetch url options])"
  unfolding fetchWithRetry_def
  using loop_success [of 0 0 "\<lambda>i. Resolves r" r 5 random url options "[]"]
  by (simp add: attempt_def)

theorem returned_response_is_success_witness:
  "fst (fetchWithRetry (\<lambda>i. Resolves (move_response (ascii ''e4''))) (\<lambda>i. 0) []
          (fetchOptions JNull) 5) = Inr (Some (move_response (ascii ''e4''))) \<and>
   (\<exists>r. Some (move_response (ascii ''e4'')) = Some r \<and> status r \<noteq> 429 \<and> ok r)"
proof -
  have run: "fst (fetchWithRetry (\<lambda>i. Resolves (move_response (ascii ''e4''))) (\<lambda>i. 0) []
          (fetchOptions JNull) 5) = Inr (Some (move_response (ascii ''e4'')))"
    by (simp add: direct_run move_response_def)
  from returned_response_is_success [OF run] run show ?thesis by simp
qed

text \<open>
  Claim C2. If all 5 attempts fail, \<open>fetchWithRetry\<close> makes exactly 5 calls and throws
  the error of the fifth attempt; an upstream that answers 429 every time gives the
  rate-limit error after exactly 5 calls; and the handler reports that last error's
  message to the caller, as the details of its failure reply.
\<close>

theorem exhausted_retries_throw_last_error:
  assumes "\<forall>i<5. retryable_failure (fetch i)"
  shows "\<exists>e. attempt (fetch 4) = Inl e \<and>
           fst (fetchWithRetry fetch random url options 5) = Inl e \<and>
           fetch_count (snd (fetchWithRetry fetch random url options 5)) = 5 \<and>
           ((\<forall>i<5. \<exists>r. fetch i = Resolves r \<and> status r = 429) \<longrightarrow>
              e = Error (ascii ''Rate limit exceeded'')) \<and>
           (req_method request = ascii ''POST'' \<and> env_key = Some key \<and> key \<noteq> [] \<and>
            read_fen request = Inr fen \<and> template toStr fen = Inr fenText \<longrightarrow>
              fst (handler toStr env_key fetch random request) = Inr (failed_reply e) \<and>
              fetch_count (snd (handler toStr env_key fetch random request)) = 5 \<and>
              code (failed_reply e) = 500 \<and>
              payload (failed_reply e) =
                Some (JObject
                  [(ascii ''error'', JString (ascii ''Failed to communicate with the Gemini API.'')),
                   (ascii ''details'', JString (message e))]))"
proof -
  from assms have "retryable_failure (fetch 4)" by simp
  then obtain e where e: "attempt (fetch 4) = Inl e"
    using attempt_fails_iff by blast
  have run: "fetchWithRetry fetch random url' options' 5 =
      (Inl e, retries random url' options' 0 4 @ [Fetch url' options'])" for url' options'
    unfolding fetchWithRetry_def
    using loop_exhausted [of 0 5 fetch e random url' options' "[]"] assms e by simp
  have limited: "e = Error (ascii ''Rate limit exceeded'')"
    if "\<forall>i<5. \<exists>r. fetch i = Resolves r \<and> status r = 429"
  proof -
    from that have "\<exists>r. fetch 4 = Resolves r \<and> status r = 429" by simp
    then obtain r where "fetch 4 = Resolves r" and "status r = 429" by blast
    with e show ?thesis by (simp add: attempt_def)
  qed
  have "fst (handler toStr env_key fetch random request) = Inr (failed_reply e) \<and>
        fetch_count (snd (handler toStr env_key fetch random request)) = 5"
    if "req_method request = ascii ''POST''" "env_key = Some key" "key \<noteq> []"
       "read_fen request = Inr fen" "template toStr fen = Inr fenText"
    using that
    by (simp add: handler_def run Let_def relay_reply_def parse_response_def
        fetch_count_append fetch_count_retries ascii_def)
  with e run limited show ?thesis
    by (simp add: fetch_count_append fetch_count_retries failed_reply_def reply_json_def)
qed

theorem exhausted_retries_throw_last_error_witness:
  "retryable_failure (Resolves rate_limited) \<and>
   fst (fetchWithRetry (\<lambda>i. Resolves rate_limited) (\<lambda>i. 0) [] (fetchOptions JNull) 5) =
     Inl (Error (ascii ''Rate limit exceeded'')) \<and>
   fetch_count (snd (fetchWithRetry (\<lambda>i. Resolves rate_limited) (\<lambda>i. 0) []
     (fetchOptions JNull) 5)) = 5 \<and>
   fst (handler no_conversion (Some (ascii ''k'')) (\<lambda>i. Resolves rate_limited) (\<lambda>i. 0)
          (fen_request (ascii ''POST'') (ascii ''8/8/8/8/8/8/8/8 w - - 0 1''))) =
     Inr (failed_reply (Error (ascii ''Rate limit exceeded'')))"
  using exhausted_retries_throw_last_error [where fetch = "\<lambda>i. Resolves rate_limited"
          and random = "\<lambda>i. 0" and url = "[]" and options = "fetchOptions JNull"
          and request = "fen_request (ascii ''POST'') (ascii ''8/8/8/8/8/8/8/8 w - - 0 1'')"
          and env_key = "Some (ascii ''k'')" and key = "ascii ''k''" and toStr = no_conversion
          and fen = "JString (ascii ''8/8/8/8/8/8/8/8 w - - 0 1'')"
          and fenText = "ascii ''8/8/8/8/8/8/8/8 w - - 0 1''"]
  by (auto simp: rate_limited_def attempt_def fen_request_def read_fen_def get_prop_def
      template_def ascii_def)

section \<open>Properties of the sanitization\<close>

lemma cleanedMove_no_space: "c \<in> set (cleanedMove s) \<Longrightarrow> \<not> is_space c"
  by (auto simp: cleanedMove_def strip_wrappers_def first_token_def dest: set_takeWhileD)

lemma cleanedMove_no_wrapper: "c \<in> set (cleanedMove s) \<Longrightarrow> \<not> is_wrapper c"
  by (simp add: cleanedMove_def strip_wrappers_def)

lemma first_token_id: "\<forall>c\<in>set s. \<not> is_space c \<Longrightarrow> first_token s = s"
  by (simp add: first_token_def)

lemma dropWhile_none: "\<forall>c\<in>set s. \<not> P c \<Longrightarrow> dropWhile P s = s"
  by (cases s) auto

lemma trim_id: "\<forall>c\<in>set s. \<not> is_space c \<Longrightarrow> trim s = s"
  by (simp add: trim_def dropWhile_none)

lemma cleanedMove_idem: "cleanedMove (cleanedMove s) = cleanedMove s"
proof -
  have "first_token (cleanedMove s) = cleanedMove s"
    by (rule first_token_id) (simp add: cleanedMove_no_space)
  moreover have "strip_wrappers (cleanedMove s) = cleanedMove s"
    by (simp add: cleanedMove_def strip_wrappers_def)
  ultimately show ?thesis
    by (simp add: cleanedMove_def [of "cleanedMove s"])
qed

lemma rev_split: "x = rev (dropWhile P (rev x)) @ rev (takeWhile P (rev x))"
proof -
  have "rev (rev (dropWhile P (rev x)) @ rev (takeWhile P (rev x))) = rev x"
    by simp
  then have "rev (dropWhile P (rev x)) @ rev (takeWhile P (rev x)) = x"
    by (simp only: rev_is_rev_conv)
  then show ?thesis by simp
qed

lemma trim_split:
  "\<exists>l r. t = l @ trim t @ r \<and> (\<forall>c\<in>set l. is_space c) \<and> (\<forall>c\<in>set r. is_space c)"
proof -
  define x where "x = dropWhile is_space t"
  have t: "t = takeWhile is_space t @ x"
    by (simp add: x_def)
  have x: "x = trim t @ rev (takeWhile is_space (rev x))"
    using rev_split [of x is_space] by (simp add: trim_def x_def)
  have l: "\<forall>c\<in>set (takeWhile is_space t). is_space c"
    by (auto dest: set_takeWhileD)
  have r: "\<forall>c\<in>set (rev (takeWhile is_space (rev x))). is_space c"
    by (auto dest: set_takeWhileD)
  from t x have "t = takeWhile is_space t @ trim t @ rev (takeWhile is_space (rev x))"
    by simp
  with l r show ?thesis by blast
qed

lemma trim_ends:
  assumes "trim t \<noteq> []"
  shows "\<not> is_space (hd (trim t)) \<and> \<not> is_space (last (trim t))"
proof -
  define x where "x = dropWhile is_space t"
  have ne: "dropWhile is_space (rev x) \<noteq> []"
    using assms by (simp add: trim_def x_def)
  have "last (trim t) = hd (dropWhile is_space (rev x))"
    using ne by (simp add: trim_def x_def last_rev)
  with hd_dropWhile [OF ne] have last: "\<not> is_space (last (trim t))" by simp
  have x: "x = trim t @ rev (takeWhile is_space (rev x))"
    using rev_split [of x is_space] by (simp add: trim_def x_def)
  with assms have "x \<noteq> []" and "hd x = hd (trim t)"
    by (auto simp: hd_append) (metis hd_append2)
  with hd_dropWhile [of is_space t] have "\<not> is_space (hd (trim t))"
    by (simp add: x_def)
  with last show ?thesis by simp
qed

lemma first_token_split:
  "\<exists>rest. s = first_token s @ rest \<and> (rest = [] \<or> is_space (hd rest))"
proof -
  have "s = first_token s @ dropWhile (\<lambda>c. \<not> is_space c) s"
    by (simp add: first_token_def)
  moreover have "dropWhile (\<lambda>c. \<not> is_space c) s = [] \<or>
      is_space (hd (dropWhile (\<lambda>c. \<not> is_space c) s))"
    using hd_dropWhile [of "\<lambda>c. \<not> is_space c" s] by auto
  ultimately show ?thesis by blast
qed

lemmas sanitize_defs =
  sanitize_def cleanedMove_def trim_def first_token_def strip_wrappers_def is_wrapper_def
  is_space_def ascii_def

text \<open>
  Claim C5. The sanitization is idempotent, both as the token extraction followed by
  the stripping (\<open>cleanedMove\<close>) and with the trimming before it (\<open>sanitize\<close>).
\<close>

theorem sanitize_is_idempotent:
  "cleanedMove (cleanedMove s) = cleanedMove s \<and> sanitize (sanitize s) = sanitize s"
proof -
  have "trim (sanitize s) = sanitize s"
    by (rule trim_id) (simp add: sanitize_def cleanedMove_no_space)
  then have "sanitize (sanitize s) = cleanedMove (cleanedMove (trim s))"
    by (simp add: sanitize_def [of "sanitize s"]) (simp add: sanitize_def)
  then show ?thesis
    by (simp add: cleanedMove_idem sanitize_def)
qed

theorem sanitize_is_idempotent_witness:
  "sanitize (sanitize (ascii '' Qxg7. (best)'')) = ascii ''Qxg7''"
proof -
  have "sanitize (ascii '' Qxg7. (best)'') = ascii ''Qxg7''"
    by (simp add: sanitize_defs)
  with sanitize_is_idempotent [of "ascii '' Qxg7. (best)''"] show ?thesis
    by simp
qed

text \<open>
  Claim C3, as amended. The sanitization trims the text, keeps the part before the
  first white-space code unit, and removes every apostrophe, double quote, backtick
  and period of that token, wherever it stands (a period inside the token is removed
  too, not only those at its end). The result contains none of these characters and
  no white space. It maps the three inputs of the specification to \<open>Nf6\<close>, \<open>e4\<close>
  and \<open>Qxg7\<close>, and \<open>1.e4\<close> to \<open>1e4\<close>.
\<close>

theorem sanitize_strips_every_period:
  "sanitize t = filter (\<lambda>c. \<not> (c = 0x27 \<or> c = 0x22 \<or> c = 0x60 \<or> c = 0x2E))
                  (takeWhile (\<lambda>c. \<not> is_space c) (trim t)) \<and>
   (\<forall>c\<in>set (sanitize t). c \<noteq> 0x27 \<and> c \<noteq> 0x22 \<and> c \<noteq> 0x60 \<and> c \<noteq> 0x2E \<and> \<not> is_space c) \<and>
   (\<exists>l r. t = l @ trim t @ r \<and> (\<forall>c\<in>set l. is_space c) \<and> (\<forall>c\<in>set r. is_space c)) \<and>
   (trim t \<noteq> [] \<longrightarrow> \<not> is_space (hd (trim t)) \<and> \<not> is_space (last (trim t))) \<and>
   (\<exists>rest. trim t = first_token (trim t) @ rest \<and> (rest = [] \<or> is_space (hd rest))) \<and>
   (\<forall>c\<in>set (first_token (trim t)). \<not> is_space c) \<and>
   sanitize (ascii ''Nf6'' @ [0x0A]) = ascii ''Nf6'' \<and>
   sanitize ([0x27] @ ascii ''e4'' @ [0x27] @ ascii ''.'') = ascii ''e4'' \<and>
   sanitize (ascii ''Qxg7 (best)'') = ascii ''Qxg7'' \<and>
   sanitize (ascii ''1.e4'') = ascii ''1e4''"
proof -
  have a: "sanitize t = filter (\<lambda>c. \<not> (c = 0x27 \<or> c = 0x22 \<or> c = 0x60 \<or> c = 0x2E))
                  (takeWhile (\<lambda>c. \<not> is_space c) (trim t))"
    by (simp add: sanitize_def cleanedMove_def strip_wrappers_def first_token_def is_wrapper_def)
  have b: "\<forall>c\<in>set (sanitize t). c \<noteq> 0x27 \<and> c \<noteq> 0x22 \<and> c \<noteq> 0x60 \<and> c \<noteq> 0x2E \<and> \<not> is_space c"
    using cleanedMove_no_space [of _ "trim t"] cleanedMove_no_wrapper [of _ "trim t"]
    by (auto simp: sanitize_def is_wrapper_def)
  have c: "\<forall>c\<in>set (first_token (trim t)). \<not> is_space c"
    by (auto simp: first_token_def dest: set_takeWhileD)
  have e1: "sanitize (ascii ''Nf6'' @ [0x0A]) = ascii ''Nf6''"
    by (simp add: sanitize_defs)
  have e2: "sanitize ([0x27] @ ascii ''e4'' @ [0x27] @ ascii ''.'') = ascii ''e4''"
    by (simp add: sanitize_defs)
  have e3: "sanitize (ascii ''Qxg7 (best)'') = ascii ''Qxg7''"
    by (simp add: sanitize_defs)
  have e4: "sanitize (ascii ''1.e4'') = ascii ''1e4''"
    by (simp add: sanitize_defs)
  from a b c e1 e2 e3 e4 trim_split [of t] trim_ends [of t] first_token_split [of "trim t"]
  show ?thesis by blast
qed

theorem sanitize_strips_every_period_witness:
  "sanitize (ascii ''  e.p. now '') =
     filter (\<lambda>c. \<not> (c = 0x27 \<or> c = 0x22 \<or> c = 0x60 \<or> c = 0x2E))
       (takeWhile (\<lambda>c. \<not> is_space c) (trim (ascii ''  e.p. now ''))) \<and>
   sanitize (ascii ''  e.p. now '') = ascii ''ep''"
proof -
  have "sanitize (ascii ''  e.p. now '') = ascii ''ep''"
    by (simp add: sanitize_defs)
  with sanitize_strips_every_period [of "ascii ''  e.p. now ''"] show ?thesis
    by blast
qed

text \<open>
  Claim C3 as stated fails on \<open>1.e4\<close>: stripping the quote characters and the
  periods at the end leaves the text unchanged, whereas the handler yields \<open>1e4\<close>.
\<close>

theorem trailing_periods_only_counterexample:
  "sanitize (ascii ''1.e4'') = ascii ''1e4'' \<and>
   spec_sanitize (ascii ''1.e4'') = ascii ''1.e4'' \<and>
   sanitize (ascii ''1.e4'') \<noteq> spec_sanitize (ascii ''1.e4'')"
  by (simp add: sanitize_defs spec_sanitize_def spec_strip_def is_quote_def)

section \<open>Properties of the backoff\<close>



lemma base_exact:
  assumes "i \<le> 43"
  shows "round64 (2 ^ i * 1000) = 2 ^ i * 1000"
    and "round64 (2 ^ i * 1000 + 1000) = 2 ^ i * 1000 + 1000"
proof -
  have "(2::nat) ^ i \<le> 2 ^ 43" using assms by (intro power_increasing) simp_all
  then have b: "(2::nat) ^ i * 1000 + 1000 < 2 ^ 53" by simp
  then have a: "(2::nat) ^ i * 1000 < 2 ^ 53" by simp
  from round64_of_nat [OF a] show "round64 (2 ^ i * 1000) = 2 ^ i * 1000" by simp
  from round64_of_nat [OF b] show "round64 (2 ^ i * 1000 + 1000) = 2 ^ i * 1000 + 1000" by simp
qed


lemma backoff_no_jitter: "i \<le> 43 \<Longrightarrow> backoff (\<lambda>i. 0) i = 2 ^ i * 1000"
  by (simp add: backoff_def base_exact round64_def [of 0])







lemma run_trace:
  "\<exists>m\<le>4. snd (fetchWithRetry fetch random url options 5) =
            retries random url options 0 m @ [Fetch url options] \<and>
          (\<forall>j<m. retryable_failure (fetch j)) \<and>
          ((\<forall>i<5. retryable_failure (fetch i)) \<longrightarrow> m = 4)"
proof (cases "\<forall>i<5. retryable_failure (fetch i)")
  case True
  then have "retryable_failure (fetch 4)" by simp
  then obtain e where e: "attempt (fetch 4) = Inl e"
    using attempt_fails_iff by blast
  have "fetchWithRetry fetch random url options 5 =
      (Inl e, retries random url options 0 4 @ [Fetch url options])"
    unfolding fetchWithRetry_def
    using loop_exhausted [of 0 5 fetch e random url options "[]"] True e by simp
  with True show ?thesis by (intro exI [of _ 4]) simp
next
  case False
  then have ex: "\<exists>k. k < 5 \<and> \<not> retryable_failure (fetch k)" by blast
  define k where "k = (LEAST k. k < 5 \<and> \<not> retryable_failure (fetch k))"
  from LeastI_ex [OF ex] have k: "k < 5" "\<not> retryable_failure (fetch k)"
    by (simp_all add: k_def)
  have before: "\<forall>j. 0 \<le> j \<and> j < k \<longrightarrow> retryable_failure (fetch j)"
  proof (intro allI impI)
    fix j assume j: "0 \<le> j \<and> j < k"
    show "retryable_failure (fetch j)"
    proof (rule ccontr)
      assume "\<not> retryable_failure (fetch j)"
      with j k have "j < 5 \<and> \<not> retryable_failure (fetch j)" by simp
      then have "k \<le> j" unfolding k_def by (rule Least_le)
      with j show False by simp
    qed
  qed
  from k(2) obtain r where r: "attempt (fetch k) = Inr r"
    using attempt_succeeds_iff by blast
  have "fetchWithRetry fetch random url options 5 =
      (Inr (Some r), retries random url options 0 k @ [Fetch url options])"
    unfolding fetchWithRetry_def
    using loop_success [of 0 k fetch r 5 random url options "[]"] before r k(1) by simp
  with k(1) False before show ?thesis by (intro exI [of _ k]) auto
qed






section \<open>Properties of the entry points\<close>

lemma handler_accepted:
  assumes "req_method request = ascii ''POST''" and "env_key = Some key" and "key \<noteq> []"
      and "read_fen request = Inr fen" and "template toStr fen = Inr fenText"
  shows "handler toStr env_key fetch random request =
           (Inr (relay_reply toStr (fst (fetchWithRetry fetch random (apiUrl key)
                   (fetchOptions (handler_payload (userPrompt fenText))) 5))),
            snd (fetchWithRetry fetch random (apiUrl key)
                   (fetchOptions (handler_payload (userPrompt fenText))) 5))"
  using assms by (simp add: handler_def Let_def ascii_def)

lemma read_fen_missing:
  "fen_missing request \<Longrightarrow>
   read_fen request =
     Inl (reply_json 400 (error_body
       (case req_body request of
          Inl e \<Rightarrow> ascii ''Invalid JSON request body.''
        | Inr body \<Rightarrow> if nullish body then ascii ''Invalid JSON request body.''
                       else ascii ''Missing FEN string in request body.'')))"
  by (auto simp: fen_missing_def read_fen_def get_prop_def split: sum.splits)

lemma handler_no_call:
  "fen_missing request \<or> env_key = None \<or> env_key = Some [] \<or>
   req_method request \<noteq> ascii ''POST'' \<Longrightarrow>
   snd (handler toStr env_key fetch random request) = []"
  by (auto simp: handler_def read_fen_missing split: option.splits sum.splits)

lemma relay_parse_failed:
  "resp_json r = Inl e \<Longrightarrow> relay_reply toStr (Inr (Some r)) = failed_reply e"
  by (simp add: relay_reply_def parse_response_def)

lemma relay_null:
  "resp_json r = Inr result \<Longrightarrow> nullish result \<Longrightarrow>
   relay_reply toStr (Inr (Some r)) = failed_reply (cannot_read result (ascii ''candidates''))"
  by (simp add: relay_reply_def parse_response_def unwrap_def get_prop_def)

lemma relay_absent:
  assumes "resp_json r = Inr result" and "\<not> nullish result"
      and "\<not> truthy (opt_index0 (lookup result (ascii ''candidates''))) \<or>
           \<not> truthy (candidate_text (opt_index0 (lookup result (ascii ''candidates''))))"
  shows "relay_reply toStr (Inr (Some r)) =
      (case template toStr (errorMessage result) of
         Inl err \<Rightarrow> failed_reply err
       | Inr msg \<Rightarrow> reply_json 502 (error_body (ascii ''Gemini API Error: '' @ msg)))"
  using assms
  by (auto simp: relay_reply_def parse_response_def unwrap_def get_prop_def Let_def
      split: sum.splits)

lemma relay_present:
  assumes "resp_json r = Inr result" and "\<not> nullish result"
      and "truthy (opt_index0 (lookup result (ascii ''candidates'')))"
      and "truthy (candidate_text (opt_index0 (lookup result (ascii ''candidates''))))"
  shows "relay_reply toStr (Inr (Some r)) =
      (case candidate_text (opt_index0 (lookup result (ascii ''candidates''))) of
         JString t \<Rightarrow> reply_json 200 (JObject [(ascii ''move'', JString (sanitize t))])
       | other \<Rightarrow> failed_reply
           (Error (ascii ''candidate.content.parts[0].text.trim is not a function'')))"
  using assms
  by (auto simp: relay_reply_def parse_response_def unwrap_def get_prop_def Let_def
      sanitize_def split: sum.splits jsval.splits)

lemma message_falsy:
  "\<not> truthy (opt_prop (lookup result (ascii ''error'')) (ascii ''message'')) \<Longrightarrow>
   template toStr (errorMessage result) =
     Inr (ascii ''Gemini returned an empty or invalid response.'')"
  by (simp add: errorMessage_def template_def Let_def)

lemma message_string:
  "opt_prop (lookup result (ascii ''error'')) (ascii ''message'') = JString m \<Longrightarrow> m \<noteq> [] \<Longrightarrow>
   template toStr (errorMessage result) = Inr m"
  by (simp add: errorMessage_def template_def Let_def)

lemma template_other: "\<not> is_string v \<Longrightarrow> template toStr v = toStr v"
  by (cases v) (simp_all add: template_def)

lemma message_other:
  "truthy (opt_prop (lookup result (ascii ''error'')) (ascii ''message'')) \<Longrightarrow>
   \<not> is_string (opt_prop (lookup result (ascii ''error'')) (ascii ''message'')) \<Longrightarrow>
   template toStr (errorMessage result) =
     toStr (opt_prop (lookup result (ascii ''error'')) (ascii ''message''))"
  by (simp add: errorMessage_def Let_def template_other)

lemma relay_ok_only:
  assumes "code (relay_reply toStr (Inr (Some r))) = 200"
  shows "\<exists>result t. resp_json r = Inr result \<and> t \<noteq> [] \<and>
         candidate_text (opt_index0 (lookup result (ascii ''candidates''))) = JString t \<and>
         payload (relay_reply toStr (Inr (Some r))) =
           Some (JObject [(ascii ''move'', JString (sanitize t))])"
  using assms
  by (auto simp: relay_reply_def parse_response_def unwrap_def get_prop_def Let_def
      failed_reply_def reply_json_def sanitize_def
      split: sum.splits if_splits jsval.splits)

text \<open>
  Claim C6, as amended. After a successful fetch with the response \<open>r\<close>: if parsing
  the body fails with \<open>e\<close>, the handler replies 500, \<open>Failed to communicate with the
  Gemini API.\<close>, with the message of \<open>e\<close> as details. If the body parses to a value
  other than \<^verbatim>\<open>null\<close> in which the first candidate, or the text of its first part, is
  absent or falsy, the handler replies 502 with \<open>Gemini API Error:\<close> followed by the
  generic message when the embedded error message is absent or falsy, by the embedded
  message itself when it is a non-empty string, and by its conversion to a string when
  it is truthy and not a string; when that conversion throws, the reply is the 500 of
  the \<^verbatim>\<open>catch\<close>. When the text is a string that is not empty, the reply is 200 with
  the sanitized text as the move (which can be the empty string); when the text is
  truthy and not a string, and when the body parses to \<^verbatim>\<open>null\<close>, the reply is the 500
  of the \<^verbatim>\<open>catch\<close>. A reply 200 is sent in no other case.
\<close>

theorem unusable_result_is_reported:
  "(resp_json r = Inl e \<longrightarrow>
      relay_reply toStr (Inr (Some r)) = failed_reply e \<and> code (failed_reply e) = 500 \<and>
      payload (failed_reply e) =
        Some (JObject
          [(ascii ''error'', JString (ascii ''Failed to communicate with the Gemini API.'')),
           (ascii ''details'', JString (message e))])) \<and>
   (resp_json r = Inr result \<and> nullish result \<longrightarrow>
      relay_reply toStr (Inr (Some r)) =
        failed_reply (cannot_read result (ascii ''candidates''))) \<and>
   (resp_json r = Inr result \<and> \<not> nullish result \<and>
    (\<not> truthy (opt_index0 (lookup result (ascii ''candidates''))) \<or>
     \<not> truthy (candidate_text (opt_index0 (lookup result (ascii ''candidates''))))) \<longrightarrow>
      (\<not> truthy (opt_prop (lookup result (ascii ''error'')) (ascii ''message'')) \<longrightarrow>
         relay_reply toStr (Inr (Some r)) =
           reply_json 502 (error_body
             (ascii ''Gemini API Error: Gemini returned an empty or invalid response.''))) \<and>
      (opt_prop (lookup result (ascii ''error'')) (ascii ''message'') = JString m \<and> m \<noteq> [] \<longrightarrow>
         relay_reply toStr (Inr (Some r)) =
           reply_json 502 (error_body (ascii ''Gemini API Error: '' @ m))) \<and>
      (truthy (opt_prop (lookup result (ascii ''error'')) (ascii ''message'')) \<and>
       \<not> is_string (opt_prop (lookup result (ascii ''error'')) (ascii ''message'')) \<and>
       toStr (opt_prop (lookup result (ascii ''error'')) (ascii ''message'')) = Inr s \<longrightarrow>
         relay_reply toStr (Inr (Some r)) =
           reply_json 502 (error_body (ascii ''Gemini API Error: '' @ s))) \<and>
      (truthy (opt_prop (lookup result (ascii ''error'')) (ascii ''message'')) \<and>
       \<not> is_string (opt_prop (lookup result (ascii ''error'')) (ascii ''message'')) \<and>
       toStr (opt_prop (lookup result (ascii ''error'')) (ascii ''message'')) = Inl e' \<longrightarrow>
         relay_reply toStr (Inr (Some r)) = failed_reply e')) \<and>
   (resp_json r = Inr result \<and> \<not> nullish result \<and>
    truthy (opt_index0 (lookup result (ascii ''candidates''))) \<and>
    truthy (candidate_text (opt_index0 (lookup result (ascii ''candidates'')))) \<longrightarrow>
      (candidate_text (opt_index0 (lookup result (ascii ''candidates''))) = JString t \<longrightarrow>
         t \<noteq> [] \<and>
         relay_reply toStr (Inr (Some r)) =
           reply_json 200 (JObject [(ascii ''move'', JString (sanitize t))])) \<and>
      (\<not> is_string (candidate_text (opt_index0 (lookup result (ascii ''candidates'')))) \<longrightarrow>
         relay_reply toStr (Inr (Some r)) =
           failed_reply
             (Error (ascii ''candidate.content.parts[0].text.trim is not a function'')))) \<and>
   (code (relay_reply toStr (Inr (Some r))) = 200 \<longrightarrow>
      (\<exists>result t. resp_json r = Inr result \<and> t \<noteq> [] \<and>
         candidate_text (opt_index0 (lookup result (ascii ''candidates''))) = JString t \<and>
         payload (relay_reply toStr (Inr (Some r))) =
           Some (JObject [(ascii ''move'', JString (sanitize t))]))) \<and>
   code (reply_json 502 obj) = 502 \<and> code (reply_json 200 obj) = 200"
proof -
  let ?reply = "relay_reply toStr (Inr (Some r))"
  let ?cand = "opt_index0 (lookup result (ascii ''candidates''))"
  let ?msg = "opt_prop (lookup result (ascii ''error'')) (ascii ''message'')"
  have a: "resp_json r = Inl e \<longrightarrow>
      ?reply = failed_reply e \<and> code (failed_reply e) = 500 \<and>
      payload (failed_reply e) =
        Some (JObject
          [(ascii ''error'', JString (ascii ''Failed to communicate with the Gemini API.'')),
           (ascii ''details'', JString (message e))])"
    by (simp add: relay_parse_failed) (simp add: failed_reply_def reply_json_def)
  have n: "resp_json r = Inr result \<and> nullish result \<longrightarrow>
      ?reply = failed_reply (cannot_read result (ascii ''candidates''))"
    by (simp add: relay_null)
  have g: "(\<not> truthy ?msg \<longrightarrow>
         ?reply = reply_json 502 (error_body
             (ascii ''Gemini API Error: Gemini returned an empty or invalid response.''))) \<and>
      (?msg = JString m \<and> m \<noteq> [] \<longrightarrow>
         ?reply = reply_json 502 (error_body (ascii ''Gemini API Error: '' @ m))) \<and>
      (truthy ?msg \<and> \<not> is_string ?msg \<and> toStr ?msg = Inr s \<longrightarrow>
         ?reply = reply_json 502 (error_body (ascii ''Gemini API Error: '' @ s))) \<and>
      (truthy ?msg \<and> \<not> is_string ?msg \<and> toStr ?msg = Inl e' \<longrightarrow>
         ?reply = failed_reply e')"
    if h: "resp_json r = Inr result \<and> \<not> nullish result \<and>
       (\<not> truthy ?cand \<or> \<not> truthy (candidate_text ?cand))"
  proof -
    from h have ab: "?reply =
      (case template toStr (errorMessage result) of
         Inl err \<Rightarrow> failed_reply err
       | Inr msg \<Rightarrow> reply_json 502 (error_body (ascii ''Gemini API Error: '' @ msg)))"
      by (intro relay_absent) simp_all
    have g1: "?reply = reply_json 502 (error_body
             (ascii ''Gemini API Error: Gemini returned an empty or invalid response.''))"
      if "\<not> truthy ?msg"
      by (simp only: ab message_falsy [OF that] sum.case) (simp add: ascii_def)
    have g2: "?reply = reply_json 502 (error_body (ascii ''Gemini API Error: '' @ m))"
      if "?msg = JString m" "m \<noteq> []"
      by (simp only: ab message_string [OF that] sum.case)
    have g3: "?reply = reply_json 502 (error_body (ascii ''Gemini API Error: '' @ s))"
      if "truthy ?msg" "\<not> is_string ?msg" "toStr ?msg = Inr s"
      by (simp only: ab message_other [OF that(1,2)] that(3) sum.case)
    have g4: "?reply = failed_reply e'"
      if "truthy ?msg" "\<not> is_string ?msg" "toStr ?msg = Inl e'"
      by (simp only: ab message_other [OF that(1,2)] that(3) sum.case)
    from g1 g2 g3 g4 show ?thesis by blast
  qed
  have d: "(candidate_text ?cand = JString t \<longrightarrow>
         t \<noteq> [] \<and> ?reply = reply_json 200 (JObject [(ascii ''move'', JString (sanitize t))])) \<and>
      (\<not> is_string (candidate_text ?cand) \<longrightarrow>
         ?reply = failed_reply
             (Error (ascii ''candidate.content.parts[0].text.trim is not a function'')))"
    if h: "resp_json r = Inr result \<and> \<not> nullish result \<and>
       truthy ?cand \<and> truthy (candidate_text ?cand)"
  proof -
    from h have pr: "?reply =
      (case candidate_text ?cand of
         JString t \<Rightarrow> reply_json 200 (JObject [(ascii ''move'', JString (sanitize t))])
       | other \<Rightarrow> failed_reply
           (Error (ascii ''candidate.content.parts[0].text.trim is not a function'')))"
      by (intro relay_present) simp_all
    have d1: "t \<noteq> [] \<and> ?reply = reply_json 200 (JObject [(ascii ''move'', JString (sanitize t))])"
      if "candidate_text ?cand = JString t"
    proof -
      from h that have "truthy (JString t)" by simp
      then have "t \<noteq> []" by simp
      moreover have "?reply = reply_json 200 (JObject [(ascii ''move'', JString (sanitize t))])"
        by (simp only: pr that jsval.case)
      ultimately show ?thesis by simp
    qed
    have d2: "?reply = failed_reply
             (Error (ascii ''candidate.content.parts[0].text.trim is not a function''))"
      if "\<not> is_string (candidate_text ?cand)"
      using that unfolding pr by (cases "candidate_text ?cand") simp_all
    from d1 d2 show ?thesis by blast
  qed
  have e: "code ?reply = 200 \<longrightarrow>
      (\<exists>result t. resp_json r = Inr result \<and> t \<noteq> [] \<and>
         candidate_text (opt_index0 (lookup result (ascii ''candidates''))) = JString t \<and>
         payload ?reply = Some (JObject [(ascii ''move'', JString (sanitize t))]))"
    using relay_ok_only [of toStr r] by blast
  have f: "code (reply_json 502 obj) = 502 \<and> code (reply_json 200 obj) = 200"
    by (simp add: reply_json_def)
  from g have g': "resp_json r = Inr result \<and> \<not> nullish result \<and>
       (\<not> truthy ?cand \<or> \<not> truthy (candidate_text ?cand)) \<longrightarrow>
      (\<not> truthy ?msg \<longrightarrow>
         ?reply = reply_json 502 (error_body
             (ascii ''Gemini API Error: Gemini returned an empty or invalid response.''))) \<and>
      (?msg = JString m \<and> m \<noteq> [] \<longrightarrow>
         ?reply = reply_json 502 (error_body (ascii ''Gemini API Error: '' @ m))) \<and>
      (truthy ?msg \<and> \<not> is_string ?msg \<and> toStr ?msg = Inr s \<longrightarrow>
         ?reply = reply_json 502 (error_body (ascii ''Gemini API Error: '' @ s))) \<and>
      (truthy ?msg \<and> \<not> is_string ?msg \<and> toStr ?msg = Inl e' \<longrightarrow>
         ?reply = failed_reply e')"
    by (rule impI)
  from d have d': "resp_json r = Inr result \<and> \<not> nullish result \<and>
       truthy ?cand \<and> truthy (candidate_text ?cand) \<longrightarrow>
      (candidate_text ?cand = JString t \<longrightarrow>
         t \<noteq> [] \<and> ?reply = reply_json 200 (JObject [(ascii ''move'', JString (sanitize t))])) \<and>
      (\<not> is_string (candidate_text ?cand) \<longrightarrow>
         ?reply = failed_reply
             (Error (ascii ''candidate.content.parts[0].text.trim is not a function'')))"
    by (rule impI)
  show ?thesis
    by (rule conjI [OF a conjI [OF n conjI [OF g' conjI [OF d' conjI [OF e f]]]]])
qed

lemmas eval_defs =
  relay_reply_def parse_response_def unwrap_def get_prop_def opt_prop_def opt_index0_def
  candidate_text_def errorMessage_def template_def Let_def failed_reply_def reply_json_def
  reply_end_def error_body_def res_json_def proxy_error_def read_fen_def fen_request_def
  prompt_body_def move_response_def quota_response_def unparsable_def rate_limited_def
  fen_missing_def prompt_or_model_missing_def

theorem unusable_result_is_reported_witness:
  "relay_reply no_conversion (Inr (Some unparsable)) =
     failed_reply (Error (ascii ''Unexpected token < in JSON at position 0'')) \<and>
   relay_reply no_conversion (Inr (Some (json_response JNull))) =
     failed_reply (cannot_read JNull (ascii ''candidates'')) \<and>
   relay_reply no_conversion (Inr (Some (json_response (JObject [])))) =
     reply_json 502 (error_body
       (ascii ''Gemini API Error: Gemini returned an empty or invalid response.'')) \<and>
   relay_reply no_conversion (Inr (Some quota_response)) =
     reply_json 502 (error_body (ascii ''Gemini API Error: quota'')) \<and>
   relay_reply bool_conversion (Inr (Some (flagged_response (JBool True)))) =
     reply_json 502 (error_body (ascii ''Gemini API Error: true'')) \<and>
   relay_reply no_conversion
     (Inr (Some (flagged_response (JObject [(ascii ''toString'', JBool True)])))) =
     failed_reply (Error (ascii ''Cannot convert object to primitive value'')) \<and>
   relay_reply no_conversion
     (Inr (Some (json_response (result_with_text (JString (ascii ''Nf6'' @ [0x0A])))))) =
     reply_json 200 (JObject [(ascii ''move'', JString (ascii ''Nf6''))]) \<and>
   relay_reply no_conversion
     (Inr (Some (json_response (result_with_text (JString (ascii ''.'')))))) =
     reply_json 200 (JObject [(ascii ''move'', JString [])]) \<and>
   relay_reply no_conversion (Inr (Some (json_response (result_with_text (JNumber 5))))) =
     failed_reply (Error (ascii ''candidate.content.parts[0].text.trim is not a function''))"
proof -
  from unusable_result_is_reported [where r = unparsable and toStr = no_conversion
      and e = "Error (ascii ''Unexpected token < in JSON at position 0'')"]
  have i1: "relay_reply no_conversion (Inr (Some unparsable)) =
     failed_reply (Error (ascii ''Unexpected token < in JSON at position 0''))"
    by (simp add: unparsable_def)
  from unusable_result_is_reported [where r = "json_response JNull" and toStr = no_conversion
      and result = JNull]
  have i2: "relay_reply no_conversion (Inr (Some (json_response JNull))) =
     failed_reply (cannot_read JNull (ascii ''candidates''))"
    by (simp add: json_response_def)
  from unusable_result_is_reported [where r = "json_response (JObject [])"
      and toStr = no_conversion and result = "JObject []"]
  have i3: "relay_reply no_conversion (Inr (Some (json_response (JObject [])))) =
     reply_json 502 (error_body
       (ascii ''Gemini API Error: Gemini returned an empty or invalid response.''))"
    by (simp add: json_response_def opt_index0_def opt_prop_def)
  from unusable_result_is_reported [where r = quota_response and toStr = no_conversion
      and result = "JObject [(ascii ''error'',
        JObject [(ascii ''message'', JString (ascii ''quota''))])]" and m = "ascii ''quota''"]
  have i4: "relay_reply no_conversion (Inr (Some quota_response)) =
     reply_json 502 (error_body (ascii ''Gemini API Error: quota''))"
    by (simp add: quota_response_def opt_index0_def opt_prop_def ascii_def)
  from unusable_result_is_reported [where r = "flagged_response (JBool True)"
      and toStr = bool_conversion
      and result = "JObject [(ascii ''error'', JObject [(ascii ''message'', JBool True)])]"
      and s = "ascii ''true''"]
  have i5: "relay_reply bool_conversion (Inr (Some (flagged_response (JBool True)))) =
     reply_json 502 (error_body (ascii ''Gemini API Error: true''))"
    by (simp add: flagged_response_def opt_index0_def opt_prop_def bool_conversion_def ascii_def)
  from unusable_result_is_reported [where
      r = "flagged_response (JObject [(ascii ''toString'', JBool True)])"
      and toStr = no_conversion
      and result = "JObject [(ascii ''error'',
        JObject [(ascii ''message'', JObject [(ascii ''toString'', JBool True)])])]"
      and e' = "Error (ascii ''Cannot convert object to primitive value'')"]
  have i6: "relay_reply no_conversion
     (Inr (Some (flagged_response (JObject [(ascii ''toString'', JBool True)])))) =
     failed_reply (Error (ascii ''Cannot convert object to primitive value''))"
    by (simp add: flagged_response_def opt_index0_def opt_prop_def no_conversion_def ascii_def)
  have s7: "sanitize (ascii ''Nf6'' @ [0x0A]) = ascii ''Nf6''"
    by (simp add: sanitize_defs)
  from unusable_result_is_reported [where
      r = "json_response (result_with_text (JString (ascii ''Nf6'' @ [0x0A])))"
      and toStr = no_conversion
      and result = "result_with_text (JString (ascii ''Nf6'' @ [0x0A]))"
      and t = "ascii ''Nf6'' @ [0x0A]"] s7
  have i7: "relay_reply no_conversion
     (Inr (Some (json_response (result_with_text (JString (ascii ''Nf6'' @ [0x0A])))))) =
     reply_json 200 (JObject [(ascii ''move'', JString (ascii ''Nf6''))])"
    by (simp add: json_response_def result_with_text_def opt_index0_def opt_prop_def
        candidate_text_def ascii_def)
  have s8: "sanitize (ascii ''.'') = []"
    by (simp add: sanitize_defs)
  from unusable_result_is_reported [where
      r = "json_response (result_with_text (JString (ascii ''.'')))"
      and toStr = no_conversion
      and result = "result_with_text (JString (ascii ''.''))"
      and t = "ascii ''.''"] s8
  have i8: "relay_reply no_conversion
     (Inr (Some (json_response (result_with_text (JString (ascii ''.'')))))) =
     reply_json 200 (JObject [(ascii ''move'', JString [])])"
    by (simp add: json_response_def result_with_text_def opt_index0_def opt_prop_def
        candidate_text_def ascii_def)
  from unusable_result_is_reported [where
      r = "json_response (result_with_text (JNumber 5))"
      and toStr = no_conversion
      and result = "result_with_text (JNumber 5)"]
  have i9: "relay_reply no_conversion
     (Inr (Some (json_response (result_with_text (JNumber 5))))) =
     failed_reply (Error (ascii ''candidate.content.parts[0].text.trim is not a function''))"
    by (simp add: json_response_def result_with_text_def opt_index0_def opt_prop_def
        candidate_text_def ascii_def)
  from i1 i2 i3 i4 i5 i6 i7 i8 i9 show ?thesis by blast
qed

text \<open>
  Claim C6 as stated fails when the body of a successful response does not parse:
  the handler replies 500, not 502.
\<close>

theorem parse_failure_counterexample:
  "handler no_conversion (Some (ascii ''k'')) (\<lambda>i. Resolves unparsable) (\<lambda>i. 0)
     (fen_request (ascii ''POST'') (ascii ''8/8/8/8/8/8/8/8 w - - 0 1'')) =
     (Inr (failed_reply (Error (ascii ''Unexpected token < in JSON at position 0''))),
      [Fetch (apiUrl (ascii ''k''))
         (fetchOptions (handler_payload (userPrompt (ascii ''8/8/8/8/8/8/8/8 w - - 0 1''))))]) \<and>
   code (failed_reply (Error (ascii ''Unexpected token < in JSON at position 0''))) = 500 \<and>
   code (failed_reply (Error (ascii ''Unexpected token < in JSON at position 0''))) \<noteq> 502"
proof -
  have run: "fetchWithRetry (\<lambda>i. Resolves unparsable) random url options 5 =
      (Inr (Some unparsable), [Fetch url options])" for random url options
    by (rule direct_run) (simp_all add: unparsable_def)
  have "handler no_conversion (Some (ascii ''k'')) (\<lambda>i. Resolves unparsable) (\<lambda>i. 0)
     (fen_request (ascii ''POST'') (ascii ''8/8/8/8/8/8/8/8 w - - 0 1'')) =
     (Inr (relay_reply no_conversion (Inr (Some unparsable))),
      [Fetch (apiUrl (ascii ''k''))
         (fetchOptions (handler_payload (userPrompt (ascii ''8/8/8/8/8/8/8/8 w - - 0 1''))))])"
    by (subst handler_accepted [where key = "ascii ''k''"
          and fen = "JString (ascii ''8/8/8/8/8/8/8/8 w - - 0 1'')"
          and fenText = "ascii ''8/8/8/8/8/8/8/8 w - - 0 1''"])
       (simp_all add: run fen_request_def read_fen_def get_prop_def template_def ascii_def)
  moreover have "relay_reply no_conversion (Inr (Some unparsable)) =
      failed_reply (Error (ascii ''Unexpected token < in JSON at position 0''))"
    by (simp add: relay_reply_def parse_response_def unparsable_def)
  ultimately show ?thesis
    by (simp add: failed_reply_def reply_json_def)
qed

text \<open>
  Claim C7, as amended. A POST request to the handler, with the key configured, whose
  \<^verbatim>\<open>fen\<close> is missing is answered 400 with an explanatory message (\<open>Missing FEN
  string in request body.\<close>, or \<open>Invalid JSON request body.\<close> when there is no body
  to read it from), and whatever the method and the key, a request whose \<^verbatim>\<open>fen\<close> is
  missing causes no outbound call. A request to the route of the standalone server
  whose body lacks \<^verbatim>\<open>prompt\<close> or \<^verbatim>\<open>model\<close> is answered 400 with an explanatory
  message when the body is neither \<^verbatim>\<open>undefined\<close> nor \<^verbatim>\<open>null\<close>, and causes no
  outbound call in any case.
\<close>

theorem missing_field_is_rejected:
  "(req_method request = ascii ''POST'' \<and> env_key = Some key \<and> key \<noteq> [] \<and>
    fen_missing request \<longrightarrow>
      (\<exists>reply msg. handler toStr env_key fetch random request = (Inr reply, []) \<and>
         code reply = 400 \<and> payload reply = Some (error_body msg) \<and>
         (msg = ascii ''Missing FEN string in request body.'' \<or>
          msg = ascii ''Invalid JSON request body.''))) \<and>
   (fen_missing request \<longrightarrow> snd (handler toStr env_key fetch random request) = []) \<and>
   (prompt_or_model_missing body \<and> \<not> nullish body \<longrightarrow>
      gemini_move toStr key fetch body =
        (res_json 400 (error_body (ascii ''Missing '' @ [0x27] @ ascii ''prompt'' @ [0x27] @
           ascii '' or '' @ [0x27] @ ascii ''model'' @ [0x27] @ ascii '' in request body.'')), []) \<and>
      code (fst (gemini_move toStr key fetch body)) = 400) \<and>
   (prompt_or_model_missing body \<longrightarrow> snd (gemini_move toStr key fetch body) = [])"
proof -
  have a: "\<exists>reply msg. handler toStr env_key fetch random request = (Inr reply, []) \<and>
         code reply = 400 \<and> payload reply = Some (error_body msg) \<and>
         (msg = ascii ''Missing FEN string in request body.'' \<or>
          msg = ascii ''Invalid JSON request body.'')"
    if "req_method request = ascii ''POST''" "env_key = Some key" "key \<noteq> []"
       "fen_missing request"
  proof -
    from that have "handler toStr env_key fetch random request =
        (Inr (reply_json 400 (error_body
           (case req_body request of
              Inl e \<Rightarrow> ascii ''Invalid JSON request body.''
            | Inr body \<Rightarrow> if nullish body then ascii ''Invalid JSON request body.''
                       else ascii ''Missing FEN string in request body.''))), [])"
      by (simp add: handler_def read_fen_missing ascii_def)
    then show ?thesis
      by (auto simp: reply_json_def split: sum.splits)
  qed
  have b: "snd (handler toStr env_key fetch random request) = []" if "fen_missing request"
    using that handler_no_call by blast
  have c: "gemini_move toStr key fetch body =
        (res_json 400 (error_body (ascii ''Missing '' @ [0x27] @ ascii ''prompt'' @ [0x27] @
           ascii '' or '' @ [0x27] @ ascii ''model'' @ [0x27] @ ascii '' in request body.'')), [])"
    if "prompt_or_model_missing body" "\<not> nullish body"
    using that by (auto simp: gemini_move_def prompt_or_model_missing_def Let_def)
  have d: "snd (gemini_move toStr key fetch body) = []" if "prompt_or_model_missing body"
    using that by (auto simp: gemini_move_def prompt_or_model_missing_def Let_def)
  from a b c d show ?thesis
    by (auto simp: res_json_def)
qed

theorem missing_field_is_rejected_witness:
  "fen_missing \<lparr>req_method = ascii ''POST'', req_body = Inr (JObject [])\<rparr> \<and>
   handler no_conversion (Some (ascii ''k'')) (\<lambda>i. Resolves rate_limited) (\<lambda>i. 0)
     \<lparr>req_method = ascii ''POST'', req_body = Inr (JObject [])\<rparr> =
     (Inr (reply_json 400 (error_body (ascii ''Missing FEN string in request body.''))), []) \<and>
   prompt_or_model_missing (JObject [(ascii ''prompt'', JString (ascii ''best move?''))]) \<and>
   gemini_move no_conversion (ascii ''k'') (\<lambda>i. Resolves rate_limited)
     (JObject [(ascii ''prompt'', JString (ascii ''best move?''))]) =
     (res_json 400 (error_body (ascii ''Missing '' @ [0x27] @ ascii ''prompt'' @ [0x27] @
        ascii '' or '' @ [0x27] @ ascii ''model'' @ [0x27] @ ascii '' in request body.'')), [])"
proof -
  have m: "fen_missing \<lparr>req_method = ascii ''POST'', req_body = Inr (JObject [])\<rparr>"
    by (simp add: fen_missing_def)
  have p: "prompt_or_model_missing (JObject [(ascii ''prompt'', JString (ascii ''best move?''))])"
    by (simp add: prompt_or_model_missing_def ascii_def)
  have r: "read_fen \<lparr>req_method = ascii ''POST'', req_body = Inr (JObject [])\<rparr> =
      Inl (reply_json 400 (error_body (ascii ''Missing FEN string in request body.'')))"
    by (simp add: read_fen_def get_prop_def)
  from missing_field_is_rejected [where request = "\<lparr>req_method = ascii ''POST'',
        req_body = Inr (JObject [])\<rparr>" and env_key = "Some (ascii ''k'')" and key = "ascii ''k''"
      and toStr = no_conversion and fetch = "\<lambda>i. Resolves rate_limited" and random = "\<lambda>i. 0"
      and body = "JObject [(ascii ''prompt'', JString (ascii ''best move?''))]"] m p
  have "snd (handler no_conversion (Some (ascii ''k'')) (\<lambda>i. Resolves rate_limited) (\<lambda>i. 0)
          \<lparr>req_method = ascii ''POST'', req_body = Inr (JObject [])\<rparr>) = []"
    and "gemini_move no_conversion (ascii ''k'') (\<lambda>i. Resolves rate_limited)
     (JObject [(ascii ''prompt'', JString (ascii ''best move?''))]) =
     (res_json 400 (error_body (ascii ''Missing '' @ [0x27] @ ascii ''prompt'' @ [0x27] @
        ascii '' or '' @ [0x27] @ ascii ''model'' @ [0x27] @ ascii '' in request body.'')), [])"
    by simp_all
  moreover have "fst (handler no_conversion (Some (ascii ''k'')) (\<lambda>i. Resolves rate_limited)
      (\<lambda>i. 0) \<lparr>req_method = ascii ''POST'', req_body = Inr (JObject [])\<rparr>) =
      Inr (reply_json 400 (error_body (ascii ''Missing FEN string in request body.'')))"
    using r by (simp add: handler_def ascii_def)
  ultimately show ?thesis using m p
    by (simp add: prod_eq_iff)
qed

text \<open>
  Claim C7 as stated fails for a request whose \<^verbatim>\<open>fen\<close> is missing and whose method
  is GET, answered 405, and for a POST request while the key is absent, answered 500.
\<close>

theorem missing_field_counterexample:
  "fen_missing \<lparr>req_method = ascii ''GET'', req_body = Inr (JObject [])\<rparr> \<and>
   handler no_conversion (Some (ascii ''k'')) (\<lambda>i. Resolves rate_limited) (\<lambda>i. 0)
     \<lparr>req_method = ascii ''GET'', req_body = Inr (JObject [])\<rparr> =
     (Inr (reply_json 405 (error_body (ascii ''Method Not Allowed. Use POST.''))), []) \<and>
   code (reply_json 405 (error_body (ascii ''Method Not Allowed. Use POST.''))) \<noteq> 400 \<and>
   fen_missing \<lparr>req_method = ascii ''POST'', req_body = Inr (JObject [])\<rparr> \<and>
   handler no_conversion None (\<lambda>i. Resolves rate_limited) (\<lambda>i. 0)
     \<lparr>req_method = ascii ''POST'', req_body = Inr (JObject [])\<rparr> =
     (Inr (reply_json 500
        (error_body (ascii ''Server configuration error: Gemini API Key is missing.''))), []) \<and>
   code (reply_json 500
        (error_body (ascii ''Server configuration error: Gemini API Key is missing.''))) \<noteq> 400"
  by (simp add: fen_missing_def handler_def reply_json_def ascii_def)

text \<open>
  Claim C8, as amended. A POST request to the handler while the key is unset or empty
  is answered 500 with \<open>Server configuration error: Gemini API Key is missing.\<close>;
  whatever the method, no outbound call is made while the key is absent; and the
  standalone server without the key exits at start-up with code 1, so that it never
  serves a request.
\<close>

theorem missing_key_is_config_error:
  "(req_method request = ascii ''POST'' \<and> (env_key = None \<or> env_key = Some []) \<longrightarrow>
      handler toStr env_key fetch random request =
        (Inr (reply_json 500
           (error_body (ascii ''Server configuration error: Gemini API Key is missing.''))), []) \<and>
      code (reply_json 500
           (error_body (ascii ''Server configuration error: Gemini API Key is missing.''))) = 500) \<and>
   (env_key = None \<or> env_key = Some [] \<longrightarrow>
      snd (handler toStr env_key fetch random request) = [] \<and>
      proxy_startup env_key = Exit 1)"
proof -
  have a: "handler toStr env_key fetch random request =
        (Inr (reply_json 500
           (error_body (ascii ''Server configuration error: Gemini API Key is missing.''))), [])"
    if "req_method request = ascii ''POST''" "env_key = None \<or> env_key = Some []"
    using that by (auto simp: handler_def ascii_def)
  have b: "snd (handler toStr env_key fetch random request) = []"
    if "env_key = None \<or> env_key = Some []"
    using that handler_no_call by blast
  have c: "proxy_startup env_key = Exit 1" if "env_key = None \<or> env_key = Some []"
    using that by (auto simp: proxy_startup_def)
  from a b c show ?thesis
    by (auto simp: reply_json_def)
qed

theorem missing_key_is_config_error_witness:
  "handler no_conversion None (\<lambda>i. Resolves rate_limited) (\<lambda>i. 0)
     (fen_request (ascii ''POST'') (ascii ''8/8/8/8/8/8/8/8 w - - 0 1'')) =
     (Inr (reply_json 500
        (error_body (ascii ''Server configuration error: Gemini API Key is missing.''))), []) \<and>
   proxy_startup None = Exit 1"
  using missing_key_is_config_error [where request =
      "fen_request (ascii ''POST'') (ascii ''8/8/8/8/8/8/8/8 w - - 0 1'')" and env_key = None
      and toStr = no_conversion and fetch = "\<lambda>i. Resolves rate_limited" and random = "\<lambda>i. 0"]
  by (simp add: fen_request_def)

text \<open>
  Claim C8 as stated fails for the requests that the handler answers before it reads
  the key: while the key is absent, OPTIONS is answered 200 and GET is answered 405.
\<close>

theorem missing_key_counterexample:
  "handler no_conversion None (\<lambda>i. Resolves rate_limited) (\<lambda>i. 0)
     \<lparr>req_method = ascii ''OPTIONS'', req_body = Inr JUndefined\<rparr> = (Inr (reply_end 200), []) \<and>
   code (reply_end 200) = 200 \<and> code (reply_end 200) \<noteq> 500 \<and>
   handler no_conversion None (\<lambda>i. Resolves rate_limited) (\<lambda>i. 0)
     \<lparr>req_method = ascii ''GET'', req_body = Inr JUndefined\<rparr> =
     (Inr (reply_json 405 (error_body (ascii ''Method Not Allowed. Use POST.''))), []) \<and>
   code (reply_json 405 (error_body (ascii ''Method Not Allowed. Use POST.''))) \<noteq> 500"
  by (simp add: handler_def reply_end_def reply_json_def ascii_def)

lemma retry_trace:
  "\<exists>m\<le>4. snd (fetchWithRetry fetch random url options 5) =
            retries random url options 0 m @ [Fetch url options]"
  using run_trace [of fetch random url options] by blast

text \<open>
  Claim C9, as amended. Both entry points put the key at the end of the URL of their
  outbound call and answer in JSON, but they do not behave alike. For a body with
  \<^verbatim>\<open>prompt\<close> and \<^verbatim>\<open>model\<close>, the standalone server makes exactly one call, with no
  retry and no look at the status, and relays the parsed body of the upstream
  unchanged with status 200, or answers 500 with the error's message when the call or
  the parsing throws. For an accepted request, the handler makes between 1 and 5
  calls, separated by the backoff waits, and answers with what it extracts from the
  result of \<open>fetchWithRetry\<close>.
\<close>

theorem entry_points_differ:
  "(\<not> prompt_or_model_missing body \<and>
    template toStr (lookup body (ascii ''model'')) = Inr modelText \<longrightarrow>
      snd (gemini_move toStr key fetch body) =
        [Fetch (geminiUrl modelText key)
           (fetchOptions (proxy_payload (lookup body (ascii ''prompt''))))] \<and>
      fst (gemini_move toStr key fetch body) =
        (case fetch 0 of
           Rejects e \<Rightarrow> proxy_error e
         | Resolves r \<Rightarrow>
             (case resp_json r of Inl e \<Rightarrow> proxy_error e | Inr data \<Rightarrow> res_json 200 data))) \<and>
   (req_method request = ascii ''POST'' \<and> env_key = Some key \<and> key \<noteq> [] \<and>
    read_fen request = Inr fen \<and> template toStr fen = Inr fenText \<longrightarrow>
      (\<exists>m\<le>4. snd (handler toStr env_key fetch random request) =
         retries random (apiUrl key) (fetchOptions (handler_payload (userPrompt fenText))) 0 m @
         [Fetch (apiUrl key) (fetchOptions (handler_payload (userPrompt fenText)))]) \<and>
      1 \<le> fetch_count (snd (handler toStr env_key fetch random request)) \<and>
      fetch_count (snd (handler toStr env_key fetch random request)) \<le> 5 \<and>
      fst (handler toStr env_key fetch random request) =
        Inr (relay_reply toStr (fst (fetchWithRetry fetch random (apiUrl key)
               (fetchOptions (handler_payload (userPrompt fenText))) 5)))) \<and>
   (\<exists>prefix. apiUrl key = prefix @ key) \<and> (\<exists>prefix. geminiUrl modelText key = prefix @ key)"
proof -
  have a: "gemini_move toStr key fetch body =
      ((case fetch 0 of
           Rejects e \<Rightarrow> proxy_error e
         | Resolves r \<Rightarrow>
             (case resp_json r of Inl e \<Rightarrow> proxy_error e | Inr data \<Rightarrow> res_json 200 data)),
       [Fetch (geminiUrl modelText key)
           (fetchOptions (proxy_payload (lookup body (ascii ''prompt''))))])"
    if "\<not> prompt_or_model_missing body"
       "template toStr (lookup body (ascii ''model'')) = Inr modelText"
    using that
    by (auto simp: gemini_move_def prompt_or_model_missing_def Let_def
        split: outcome.splits sum.splits)
  have b: "(\<exists>m\<le>4. snd (handler toStr env_key fetch random request) =
         retries random (apiUrl key) (fetchOptions (handler_payload (userPrompt fenText))) 0 m @
         [Fetch (apiUrl key) (fetchOptions (handler_payload (userPrompt fenText)))]) \<and>
      1 \<le> fetch_count (snd (handler toStr env_key fetch random request)) \<and>
      fetch_count (snd (handler toStr env_key fetch random request)) \<le> 5 \<and>
      fst (handler toStr env_key fetch random request) =
        Inr (relay_reply toStr (fst (fetchWithRetry fetch random (apiUrl key)
               (fetchOptions (handler_payload (userPrompt fenText))) 5)))"
    if "req_method request = ascii ''POST''" "env_key = Some key" "key \<noteq> []"
       "read_fen request = Inr fen" "template toStr fen = Inr fenText"
  proof -
    from retry_trace obtain m where m: "m \<le> 4"
      and tr: "snd (fetchWithRetry fetch random (apiUrl key)
                 (fetchOptions (handler_payload (userPrompt fenText))) 5) =
               retries random (apiUrl key) (fetchOptions (handler_payload (userPrompt fenText))) 0 m @
               [Fetch (apiUrl key) (fetchOptions (handler_payload (userPrompt fenText)))]"
      by blast
    from m tr show ?thesis
      by (auto simp: handler_accepted [OF that] fetch_count_append fetch_count_retries)
  qed
  have c: "\<exists>prefix. apiUrl key = prefix @ key"
    by (simp add: apiUrl_def)
  have d: "\<exists>prefix. geminiUrl modelText key = prefix @ key"
    by (simp add: geminiUrl_def)
  from a b c d show ?thesis by simp
qed

theorem entry_points_differ_witness:
  "gemini_move no_conversion (ascii ''k'') flaky (prompt_body (ascii ''best move?'') (ascii ''m'')) =
     (res_json 500 (error_body (ascii ''socket hang up'')),
      [Fetch (geminiUrl (ascii ''m'') (ascii ''k''))
         (fetchOptions (proxy_payload (JString (ascii ''best move?''))))]) \<and>
   fetch_count (snd (handler no_conversion (Some (ascii ''k'')) flaky (\<lambda>i. 0)
     (fen_request (ascii ''POST'') (ascii ''8/8/8/8/8/8/8/8 w - - 0 1'')))) \<le> 5"
proof -
  have p: "\<not> prompt_or_model_missing (prompt_body (ascii ''best move?'') (ascii ''m''))"
    by (simp add: prompt_or_model_missing_def prompt_body_def ascii_def)
  have l: "lookup (prompt_body (ascii ''best move?'') (ascii ''m'')) (ascii ''model'') =
      JString (ascii ''m'')"
    "lookup (prompt_body (ascii ''best move?'') (ascii ''m'')) (ascii ''prompt'') =
      JString (ascii ''best move?'')"
    by (simp_all add: prompt_body_def ascii_def)
  have f: "read_fen (fen_request (ascii ''POST'') (ascii ''8/8/8/8/8/8/8/8 w - - 0 1'')) =
      Inr (JString (ascii ''8/8/8/8/8/8/8/8 w - - 0 1''))"
    by (simp add: read_fen_def fen_request_def get_prop_def ascii_def)
  from entry_points_differ [where body = "prompt_body (ascii ''best move?'') (ascii ''m'')"
      and toStr = no_conversion and modelText = "ascii ''m''" and key = "ascii ''k''"
      and fetch = flaky and env_key = "Some (ascii ''k'')" and random = "\<lambda>i. 0"
      and request = "fen_request (ascii ''POST'') (ascii ''8/8/8/8/8/8/8/8 w - - 0 1'')"
      and fen = "JString (ascii ''8/8/8/8/8/8/8/8 w - - 0 1'')"
      and fenText = "ascii ''8/8/8/8/8/8/8/8 w - - 0 1''"] p l f
  show ?thesis
    by (simp add: template_def flaky_def proxy_error_def prod_eq_iff fen_request_def ascii_def)
qed

text \<open>
  Claim C9 as stated fails. With an upstream whose first call is rejected and whose
  later calls succeed, the handler answers 200 with the move after two calls and the
  standalone server answers 500 after one call; with an upstream that succeeds at
  once, the handler answers with the cleaned move and the server with the whole
  upstream body.
\<close>

theorem entry_points_counterexample:
  "handler no_conversion (Some (ascii ''k'')) flaky (\<lambda>i. 0)
     (fen_request (ascii ''POST'') (ascii ''8/8/8/8/8/8/8/8 w - - 0 1'')) =
     (Inr (reply_json 200 (JObject [(ascii ''move'', JString (ascii ''Nf6''))])),
      [Fetch (apiUrl (ascii ''k''))
         (fetchOptions (handler_payload (userPrompt (ascii ''8/8/8/8/8/8/8/8 w - - 0 1'')))),
       Sleep 1000,
       Fetch (apiUrl (ascii ''k''))
         (fetchOptions (handler_payload (userPrompt (ascii ''8/8/8/8/8/8/8/8 w - - 0 1''))))]) \<and>
   gemini_move no_conversion (ascii ''k'') flaky (prompt_body (ascii ''best move?'') (ascii ''m'')) =
     (res_json 500 (error_body (ascii ''socket hang up'')),
      [Fetch (geminiUrl (ascii ''m'') (ascii ''k''))
         (fetchOptions (proxy_payload (JString (ascii ''best move?''))))]) \<and>
   code (reply_json 200 (JObject [(ascii ''move'', JString (ascii ''Nf6''))])) \<noteq>
     code (res_json 500 (error_body (ascii ''socket hang up''))) \<and>
   fst (handler no_conversion (Some (ascii ''k''))
     (\<lambda>i. Resolves (move_response (ascii ''Nf6'' @ [0x0A]))) (\<lambda>i. 0)
     (fen_request (ascii ''POST'') (ascii ''8/8/8/8/8/8/8/8 w - - 0 1''))) =
     Inr (reply_json 200 (JObject [(ascii ''move'', JString (ascii ''Nf6''))])) \<and>
   fst (gemini_move no_conversion (ascii ''k'')
     (\<lambda>i. Resolves (move_response (ascii ''Nf6'' @ [0x0A])))
     (prompt_body (ascii ''best move?'') (ascii ''m''))) =
     res_json 200 (JObject [(ascii ''candidates'',
        JArray [JObject [(ascii ''content'',
          JObject [(ascii ''parts'',
            JArray [JObject [(ascii ''text'', JString (ascii ''Nf6'' @ [0x0A]))]])])]])])"
proof -
  have f: "read_fen (fen_request (ascii ''POST'') (ascii ''8/8/8/8/8/8/8/8 w - - 0 1'')) =
      Inr (JString (ascii ''8/8/8/8/8/8/8/8 w - - 0 1''))"
    by (simp add: read_fen_def fen_request_def get_prop_def ascii_def)
  have m: "req_method (fen_request (ascii ''POST'') (ascii ''8/8/8/8/8/8/8/8 w - - 0 1'')) =
      ascii ''POST''"
    by (simp add: fen_request_def)
  have t: "template no_conversion (JString (ascii ''8/8/8/8/8/8/8/8 w - - 0 1'')) =
      Inr (ascii ''8/8/8/8/8/8/8/8 w - - 0 1'')"
    by (simp add: template_def)
  have k: "ascii ''k'' \<noteq> []" by (simp add: ascii_def)
  note acc = handler_accepted [OF m refl k f t]
  have ok: "attempt (Resolves (move_response (ascii ''Nf6'' @ [0x0A]))) =
      Inr (move_response (ascii ''Nf6'' @ [0x0A]))"
    by (simp add: attempt_def move_response_def)
  have run: "fetchWithRetry flaky (\<lambda>i. 0) url options 5 =
      (Inr (Some (move_response (ascii ''Nf6'' @ [0x0A]))),
       [Fetch url options, Sleep 1000, Fetch url options])" for url options
    unfolding fetchWithRetry_def
    using loop_success [of 0 1 flaky "move_response (ascii ''Nf6'' @ [0x0A])" 5 "\<lambda>i. 0"
        url options "[]"] ok
    by (simp add: flaky_def backoff_no_jitter)
  have direct: "fetchWithRetry (\<lambda>i. Resolves (move_response (ascii ''Nf6'' @ [0x0A]))) (\<lambda>i. 0)
      url options 5 =
      (Inr (Some (move_response (ascii ''Nf6'' @ [0x0A]))), [Fetch url options])" for url options
    by (rule direct_run) (simp_all add: move_response_def)
  have reply: "relay_reply no_conversion (Inr (Some (move_response (ascii ''Nf6'' @ [0x0A])))) =
      reply_json 200 (JObject [(ascii ''move'', JString (ascii ''Nf6''))])"
    by (simp add: eval_defs sanitize_defs)
  have h1: "handler no_conversion (Some (ascii ''k'')) flaky (\<lambda>i. 0)
     (fen_request (ascii ''POST'') (ascii ''8/8/8/8/8/8/8/8 w - - 0 1'')) =
     (Inr (reply_json 200 (JObject [(ascii ''move'', JString (ascii ''Nf6''))])),
      [Fetch (apiUrl (ascii ''k''))
         (fetchOptions (handler_payload (userPrompt (ascii ''8/8/8/8/8/8/8/8 w - - 0 1'')))),
       Sleep 1000,
       Fetch (apiUrl (ascii ''k''))
         (fetchOptions (handler_payload (userPrompt (ascii ''8/8/8/8/8/8/8/8 w - - 0 1''))))])"
    by (simp add: acc run reply)
  have h2: "fst (handler no_conversion (Some (ascii ''k''))
     (\<lambda>i. Resolves (move_response (ascii ''Nf6'' @ [0x0A]))) (\<lambda>i. 0)
     (fen_request (ascii ''POST'') (ascii ''8/8/8/8/8/8/8/8 w - - 0 1''))) =
     Inr (reply_json 200 (JObject [(ascii ''move'', JString (ascii ''Nf6''))]))"
    by (simp add: acc direct reply)
  have s1: "gemini_move no_conversion (ascii ''k'') flaky
      (prompt_body (ascii ''best move?'') (ascii ''m'')) =
     (res_json 500 (error_body (ascii ''socket hang up'')),
      [Fetch (geminiUrl (ascii ''m'') (ascii ''k''))
         (fetchOptions (proxy_payload (JString (ascii ''best move?''))))])"
    by (simp add: gemini_move_def prompt_body_def template_def flaky_def proxy_error_def
        Let_def ascii_def)
  have s2: "fst (gemini_move no_conversion (ascii ''k'')
     (\<lambda>i. Resolves (move_response (ascii ''Nf6'' @ [0x0A])))
     (prompt_body (ascii ''best move?'') (ascii ''m''))) =
     res_json 200 (JObject [(ascii ''candidates'',
        JArray [JObject [(ascii ''content'',
          JObject [(ascii ''parts'',
            JArray [JObject [(ascii ''text'', JString (ascii ''Nf6'' @ [0x0A]))]])])]])])"
    by (simp add: gemini_move_def prompt_body_def template_def move_response_def
        Let_def ascii_def)
  have c: "code (reply_json 200 (JObject [(ascii ''move'', JString (ascii ''Nf6''))])) \<noteq>
     code (res_json 500 (error_body (ascii ''socket hang up'')))"
    by (simp add: reply_json_def res_json_def)
  from h1 h2 s1 s2 c show ?thesis by blast
qed

end
